theory Spec2Isabelle
  imports Complex_Main "HOL-Library.Sublist"
begin

section \<open>Strings and numbers of the host language\<close>

text \<open>
  JavaScript strings are modelled as \<^typ>\<open>string\<close> over ASCII; numbers that the code only
  compares, adds and scales (durations, frame rates, clock readings) are modelled as exact
  rationals, identifiers, pixel sizes and byte counts as integers.
\<close>

definition lower_char :: "char \<Rightarrow> char" where
  "lower_char c =
     (let n = (of_char c :: nat) in if 65 \<le> n \<and> n \<le> 90 then char_of (n + 32) else c)"

text \<open>\<^verbatim>\<open>String.prototype.toLowerCase\<close> on ASCII text.\<close>

definition toLowerCase :: "string \<Rightarrow> string" where
  "toLowerCase s = map lower_char s"

text \<open>\<^verbatim>\<open>Array.prototype.join\<close>.\<close>

fun join :: "string \<Rightarrow> string list \<Rightarrow> string" where
  "join sep [] = []"
| "join sep [x] = x"
| "join sep (x # y # ys) = x @ sep @ join sep (y # ys)"

text \<open>\<^verbatim>\<open>String.prototype.includes\<close>: \<open>str_includes t k\<close> holds when \<open>k\<close> occurs in \<open>t\<close>.\<close>

fun str_includes :: "string \<Rightarrow> string \<Rightarrow> bool" where
  "str_includes [] k = (k = [])"
| "str_includes (c # cs) k = (prefix k (c # cs) \<or> str_includes cs k)"

text \<open>Decimal rendering of an integer inside a template literal.\<close>

definition digit_char :: "nat \<Rightarrow> char" where
  "digit_char n = char_of (48 + n)"

function dec :: "nat \<Rightarrow> string" where
  "dec n = (if n < 10 then [digit_char n] else dec (n div 10) @ [digit_char (n mod 10)])"
  by pat_completeness auto
termination
  by (relation "measure id") auto

declare dec.simps [simp del]

definition show_int :: "int \<Rightarrow> string" where
  "show_int i = (if i < 0 then CHR ''-'' # dec (nat (- i)) else dec (nat i))"

section \<open>Data model\<close>

record pexels_user =
  user_id :: int
  user_name :: string
  user_url :: string

text \<open>One entry of \<^verbatim>\<open>PexelsVideo.video_files\<close> (a rendition).\<close>

record video_file =
  vf_id :: int
  vf_quality :: string
  file_type :: string
  vf_width :: int
  vf_height :: int
  vf_fps :: rat
  link :: string

record PexelsVideo =
  pv_id :: int
  pv_width :: int
  pv_height :: int
  pv_duration :: rat
  pv_url :: string
  pv_user :: pexels_user
  video_files :: "video_file list"
  pv_tags :: "string list"

record pexels_metadata =
  width :: int
  height :: int
  duration :: rat
  url :: string
  tags :: "string list"
  user :: pexels_user

text \<open>\<^verbatim>\<open>VideoMetadata\<close>: one record of the ledger file \<^verbatim>\<open>metadata.json\<close>. The download
  date is kept as the clock reading it is rendered from.\<close>

record VideoMetadata =
  vm_id :: int
  filename :: string
  local_path :: string
  file_size :: nat
  download_date :: int
  category :: "string option"
  pexels_metadata :: pexels_metadata

section \<open>Categorization (organization-manager.ts)\<close>

text \<open>\<^verbatim>\<open>OrganizationScheme\<close>: the entries of the rule object in the order
  \<^verbatim>\<open>Object.entries\<close> yields them.\<close>

type_synonym OrganizationScheme = "(string \<times> string list) list"

datatype scheme = Emotion | Energy | Color | Duration | Custom

definition organizationSchemes :: "scheme \<Rightarrow> OrganizationScheme option" where
  "organizationSchemes s =
     (case s of
        Emotion \<Rightarrow> Some
          [(''calm'', [''water'', ''clouds'', ''slow'', ''peaceful'', ''serene'', ''gentle'', ''soft'', ''quiet'']),
           (''energetic'', [''fast'', ''bright'', ''motion'', ''dynamic'', ''active'', ''vibrant'', ''quick'', ''rapid'']),
           (''mysterious'', [''dark'', ''smoke'', ''shadow'', ''fog'', ''night'', ''mysterious'', ''abstract'', ''enigmatic'']),
           (''happy'', [''colorful'', ''sunny'', ''playful'', ''light'', ''bright'', ''cheerful'', ''joyful'', ''positive'']),
           (''dramatic'', [''storm'', ''lightning'', ''intense'', ''powerful'', ''dramatic'', ''bold'', ''striking''])]
      | Energy \<Rightarrow> Some
          [(''high'', [''fast'', ''rapid'', ''quick'', ''dynamic'', ''active'', ''intense'', ''powerful'', ''energetic'']),
           (''medium'', [''moderate'', ''steady'', ''balanced'', ''consistent'', ''regular'', ''normal'']),
           (''low'', [''slow'', ''calm'', ''peaceful'', ''gentle'', ''soft'', ''quiet'', ''relaxed'', ''serene''])]
      | Color \<Rightarrow> Some
          [(''warm'', [''red'', ''orange'', ''yellow'', ''warm'', ''sunset'', ''fire'', ''golden'']),
           (''cool'', [''blue'', ''green'', ''purple'', ''cool'', ''ocean'', ''sky'', ''ice'']),
           (''neutral'', [''black'', ''white'', ''gray'', ''grey'', ''monochrome'', ''neutral'']),
           (''vibrant'', [''colorful'', ''bright'', ''vivid'', ''saturated'', ''rainbow'', ''neon''])]
      | Duration \<Rightarrow> Some [(''short'', []), (''medium'', []), (''long'', [])]
      | Custom \<Rightarrow> None)"

text \<open>The loop of \<^verbatim>\<open>calculateCategoryScore\<close> (organization-manager.ts, lines 150 to 158),
  with its counter.\<close>

fun score_loop :: "string \<Rightarrow> string list \<Rightarrow> nat \<Rightarrow> nat" where
  "score_loop tgs [] score = score"
| "score_loop tgs (keyword # keywords) score =
     score_loop tgs keywords (if str_includes tgs (toLowerCase keyword) then score + 1 else score)"

definition calculateCategoryScore :: "string \<Rightarrow> string list \<Rightarrow> nat" where
  "calculateCategoryScore tgs keywords = score_loop tgs keywords 0"

text \<open>The loop of \<^verbatim>\<open>categorizeVideo\<close> (lines 117 to 148) over the rule entries, carrying
  \<^verbatim>\<open>bestCategory\<close> and \<^verbatim>\<open>bestScore\<close>.\<close>

fun best_loop ::
  "string \<Rightarrow> OrganizationScheme \<Rightarrow> string option \<times> nat \<Rightarrow> string option \<times> nat" where
  "best_loop allTags [] best = best"
| "best_loop allTags ((cat, keywords) # rest) (bestCategory, bestScore) =
     (let score = calculateCategoryScore allTags keywords in
      if score > bestScore then best_loop allTags rest (Some cat, score)
      else best_loop allTags rest (bestCategory, bestScore))"

definition categorizeVideo :: "VideoMetadata \<Rightarrow> OrganizationScheme \<Rightarrow> scheme \<Rightarrow> string option" where
  "categorizeVideo video rules sch =
     (if sch = Duration then
        (let d = duration (pexels_metadata video) in
         if d \<le> 15 then Some ''short''
         else if d \<le> 45 then Some ''medium''
         else Some ''long'')
      else
        (let allTags = toLowerCase (join '' '' (tags (pexels_metadata video)));
             (bestCategory, bestScore) = best_loop allTags rules (None, 0)
         in if bestScore > 0 then bestCategory else None))"

section \<open>TTL cache (cache-manager.ts)\<close>

record 'a CacheEntry =
  data :: 'a
  timestamp :: rat
  expiresAt :: rat

text \<open>The state of a \<^verbatim>\<open>CacheManager\<close>: its map and its default duration in seconds.\<close>

record 'a CacheManager =
  cache :: "string \<rightharpoonup> 'a CacheEntry"
  cache_duration :: rat

text \<open>\<^verbatim>\<open>set(key, data, customDuration?)\<close> (cache-manager.ts, lines 23 to 35) at clock reading
  \<open>now\<close> (milliseconds).
  \<^verbatim>\<open>customDuration || this.duration\<close> takes the default when the override is absent or zero.\<close>

definition cache_set ::
  "'a CacheManager \<Rightarrow> rat \<Rightarrow> string \<Rightarrow> 'a \<Rightarrow> rat option \<Rightarrow> 'a CacheManager" where
  "cache_set c now key d customDuration =
     (let dur = (case customDuration of
                   None \<Rightarrow> cache_duration c
                 | Some x \<Rightarrow> if x = 0 then cache_duration c else x);
          entry = \<lparr>data = d, timestamp = now, expiresAt = now + dur * 1000\<rparr>
      in c\<lparr>cache := (cache c)(key \<mapsto> entry)\<rparr>)"

text \<open>\<^verbatim>\<open>get(key)\<close> (lines 37 to 53) at clock reading \<open>now\<close>: the value or \<^verbatim>\<open>null\<close>, and
  the cache afterwards.\<close>

definition cache_get :: "'a CacheManager \<Rightarrow> rat \<Rightarrow> string \<Rightarrow> 'a option \<times> 'a CacheManager" where
  "cache_get c now key =
     (case cache c key of
        None \<Rightarrow> (None, c)
      | Some entry \<Rightarrow>
          if now > expiresAt entry then (None, c\<lparr>cache := (cache c)(key := None)\<rparr>)
          else (Some (data entry), c))"

section \<open>Download manager (download-manager.ts)\<close>

datatype quality = HD | SD | Mobile

definition quality_name :: "quality \<Rightarrow> string" where
  "quality_name q = (case q of HD \<Rightarrow> ''hd'' | SD \<Rightarrow> ''sd'' | Mobile \<Rightarrow> ''mobile'')"

record DownloadOptions =
  video_id :: int
  o_quality :: "quality option"
  o_filename :: "string option"
  o_category :: "string option"

record FilterCriteria =
  min_width :: "int option"
  min_height :: "int option"
  preferred_fps :: "rat option"
  exclude_ids :: "int list option"

record BatchDownloadOptions =
  max_videos :: "int option"
  b_quality :: "quality option"
  b_category :: "string option"
  filter_criteria :: "FilterCriteria option"

datatype status = Success | Failed

record result_metadata =
  r_width :: int
  r_height :: int
  r_duration :: rat
  r_fps :: rat
  codec :: string
  bitrate :: string

record DownloadResult =
  r_video_id :: int
  r_local_path :: string
  r_file_size :: nat
  download_time :: rat
  r_metadata :: result_metadata
  status :: status
  error :: "string option"

subsection \<open>The world the managers run in\<close>

text \<open>The ledger file \<^verbatim>\<open>metadata.json\<close>: absent, present but not readable as JSON (with the
  message \<^verbatim>\<open>readJson\<close> rejects with), or the array of records it holds.\<close>

datatype ledger_file = Missing | Unreadable string | Ledger "VideoMetadata list"

text \<open>Every effect on the network or the file system leaves an event in the trace.\<close>

datatype io_event =
    LedgerRead
  | LedgerWrite
  | EnsureDir string
  | HttpGet int string
  | FileWrite string
  | FileMove string string

text \<open>
  The state threaded through every operation: the disk (ledger file, stored video files), the
  behaviour of the environment (which directory creations, transfers, stream writes, moves
  and ledger writes fail, and with which message; how long a transfer takes), the clock
  \<^verbatim>\<open>Date.now()\<close> in milliseconds, and the fields of the \<^verbatim>\<open>DownloadManager\<close> object
  (\<^verbatim>\<open>downloadPath\<close>, \<^verbatim>\<open>downloadedVideos\<close>). The download path is the value of
  \<^verbatim>\<open>process.env.DOWNLOAD_PATH || './downloads'\<close>, which the server hands to the
  \<^verbatim>\<open>DownloadManager\<close> and which \<^verbatim>\<open>organizeByCategory\<close> reads itself (line 73): one directory
  and one ledger file for both.
\<close>

record world =
  metadataFile :: ledger_file
  ledger_write_error :: "string option"
  files :: "string \<rightharpoonup> nat"
  dir_error :: "string \<Rightarrow> string option"
  http :: "string \<Rightarrow> string + nat"
  latency :: "string \<Rightarrow> nat"
  write_error :: "string \<Rightarrow> string option"
  move_error :: "string \<Rightarrow> string \<Rightarrow> string option"
  clock :: int
  downloadPath :: string
  downloadedVideos :: "int set"
  trace :: "io_event list"

definition emit :: "io_event \<Rightarrow> world \<Rightarrow> world" where
  "emit e w = w\<lparr>trace := trace w @ [e]\<rparr>"

text \<open>
  \<^verbatim>\<open>path.join\<close> of two arguments, on POSIX paths: the non-empty arguments are put together
  with a slash and the result is normalised. Normalisation walks the segments between
  slashes: an empty segment and \<^verbatim>\<open>.\<close> are dropped, \<^verbatim>\<open>..\<close> removes the segment before it
  (and is kept at the front of a relative path that has none left), a leading and a trailing
  slash survive, and an empty result is \<^verbatim>\<open>.\<close>.
\<close>

fun split_at_slash :: "string \<Rightarrow> string \<Rightarrow> string list" where
  "split_at_slash cur [] = [cur]"
| "split_at_slash cur (c # cs) =
     (if c = CHR ''/'' then cur # split_at_slash [] cs else split_at_slash (cur @ [c]) cs)"

text \<open>The segments kept so far are held last segment first.\<close>

fun normalize_segments :: "bool \<Rightarrow> string list \<Rightarrow> string list \<Rightarrow> string list" where
  "normalize_segments allowAboveRoot kept [] = rev kept"
| "normalize_segments allowAboveRoot kept (seg # segs) =
     (if seg = [] \<or> seg = ''.'' then normalize_segments allowAboveRoot kept segs
      else if seg = ''..'' then
        (case kept of
           [] \<Rightarrow>
             if allowAboveRoot then normalize_segments allowAboveRoot [seg] segs
             else normalize_segments allowAboveRoot [] segs
         | lastSeg # below \<Rightarrow>
             if lastSeg = ''..'' then
               (if allowAboveRoot then normalize_segments allowAboveRoot (seg # kept) segs
                else normalize_segments allowAboveRoot kept segs)
             else normalize_segments allowAboveRoot below segs)
      else normalize_segments allowAboveRoot (seg # kept) segs)"

definition normalize :: "string \<Rightarrow> string" where
  "normalize p =
     (if p = [] then ''.''
      else
        (let isAbsolute = (hd p = CHR ''/'');
             trailingSeparator = (last p = CHR ''/'');
             body = join ''/'' (normalize_segments (\<not> isAbsolute) [] (split_at_slash [] p))
         in if body = [] then (if isAbsolute then ''/'' else if trailingSeparator then ''./'' else ''.'')
            else (if isAbsolute then ''/'' else []) @ body @ (if trailingSeparator then ''/'' else [])))"

definition path_join :: "string \<Rightarrow> string \<Rightarrow> string" where
  "path_join a b =
     (let joined = (if a = [] then b else if b = [] then a else a @ ''/'' @ b)
      in if joined = [] then ''.'' else normalize joined)"

subsection \<open>Construction and loading\<close>

text \<open>What the constructor has done when it returns: \<^verbatim>\<open>initialize()\<close> is started but
  not awaited, so the set of downloaded ids is still empty.\<close>

definition DownloadManager_new :: "world \<Rightarrow> string \<Rightarrow> world" where
  "DownloadManager_new w path = w\<lparr>downloadPath := path, downloadedVideos := {}\<rparr>"

text \<open>\<^verbatim>\<open>loadMetadata\<close> (download-manager.ts, lines 93 to 105).\<close>

definition loadMetadata :: "world \<Rightarrow> world" where
  "loadMetadata w =
     (case metadataFile w of
        Missing \<Rightarrow> w
      | Unreadable msg \<Rightarrow> emit LedgerRead w
      | Ledger metadata \<Rightarrow>
          (emit LedgerRead w)\<lparr>downloadedVideos := downloadedVideos w \<union> set (map vm_id metadata)\<rparr>)"

definition initialize :: "world \<Rightarrow> world" where
  "initialize w =
     (let w1 = emit (EnsureDir (downloadPath w)) w in
      case dir_error w (downloadPath w) of
        Some msg \<Rightarrow> w1
      | None \<Rightarrow> loadMetadata w1)"

subsection \<open>Recording a fetched asset\<close>

text \<open>\<^verbatim>\<open>fs.writeJson\<close> of the ledger followed by \<^verbatim>\<open>downloadedVideos.add\<close>; a rejected write
  is caught by \<^verbatim>\<open>saveMetadata\<close> and leaves file and set as they were.\<close>

definition write_ledger :: "world \<Rightarrow> VideoMetadata list \<Rightarrow> int \<Rightarrow> world" where
  "write_ledger w metadata vid =
     (let w1 = emit LedgerWrite w in
      case ledger_write_error w of
        Some msg \<Rightarrow> w1
      | None \<Rightarrow> w1\<lparr>metadataFile := Ledger metadata, downloadedVideos := insert vid (downloadedVideos w)\<rparr>)"

text \<open>\<^verbatim>\<open>saveMetadata\<close> (lines 107 to 128): read the ledger if it exists, drop the records
  with the id of the new one, append it, write.\<close>

definition saveMetadata :: "world \<Rightarrow> VideoMetadata \<Rightarrow> world" where
  "saveMetadata w videoMetadata =
     (case metadataFile w of
        Missing \<Rightarrow> write_ledger w [videoMetadata] (vm_id videoMetadata)
      | Unreadable msg \<Rightarrow> emit LedgerRead w
      | Ledger metadata \<Rightarrow>
          write_ledger (emit LedgerRead w)
            (filter (\<lambda>video. vm_id video \<noteq> vm_id videoMetadata) metadata @ [videoMetadata])
            (vm_id videoMetadata))"

subsection \<open>Choosing a rendition\<close>

text \<open>\<^verbatim>\<open>selectBestQuality\<close> (lines 295 to 311) and its table of preference orders.\<close>

definition qualityOrder :: "string \<Rightarrow> string list option" where
  "qualityOrder q =
     (if q = ''hd'' then Some [''hd'', ''sd'', ''mobile'']
      else if q = ''sd'' then Some [''sd'', ''hd'', ''mobile'']
      else if q = ''mobile'' then Some [''mobile'', ''sd'', ''hd'']
      else None)"

text \<open>The loop over the preferred qualities, ending in \<^verbatim>\<open>videoFiles[0]\<close>
  (\<^verbatim>\<open>undefined\<close> on an empty list).\<close>

fun find_preferred :: "video_file list \<Rightarrow> string list \<Rightarrow> video_file option" where
  "find_preferred videoFiles [] = (case videoFiles of [] \<Rightarrow> None | f # _ \<Rightarrow> Some f)"
| "find_preferred videoFiles (preferredQuality # rest) =
     (case find (\<lambda>f. vf_quality f = preferredQuality) videoFiles of
        Some f \<Rightarrow> Some f
      | None \<Rightarrow> find_preferred videoFiles rest)"

definition selectBestQuality :: "video_file list \<Rightarrow> string \<Rightarrow> video_file option" where
  "selectBestQuality videoFiles q =
     (let preferredQualities =
            (case qualityOrder q of Some order \<Rightarrow> order | None \<Rightarrow> [''hd'', ''sd'', ''mobile''])
      in find_preferred videoFiles preferredQualities)"

subsection \<open>File names and derived metadata\<close>

text \<open>\<^verbatim>\<open>generateFilename\<close> (lines 313 to 324) with its two regular expressions,
  \<^verbatim>\<open>extractCodec\<close> (lines 326 to 330) and \<^verbatim>\<open>estimateBitrate\<close> (lines 332 to 336);
  \<^verbatim>\<open>Math.round\<close> rounds a half upwards.\<close>

definition is_space :: "char \<Rightarrow> bool" where
  "is_space c = ((of_char c :: nat) \<in> {9, 10, 11, 12, 13, 32})"

definition is_alnum :: "char \<Rightarrow> bool" where
  "is_alnum c =
     (let n = (of_char c :: nat) in
      (48 \<le> n \<and> n \<le> 57) \<or> (65 \<le> n \<and> n \<le> 90) \<or> (97 \<le> n \<and> n \<le> 122))"

function collapse_spaces :: "string \<Rightarrow> string" where
  "collapse_spaces [] = []"
| "collapse_spaces (c # cs) =
     (if is_space c then CHR ''_'' # collapse_spaces (dropWhile is_space cs)
      else c # collapse_spaces cs)"
  by pat_completeness auto
termination
  by (relation "measure length") (auto simp: length_dropWhile_le less_Suc_eq_le)

definition sanitizeTitle :: "string \<Rightarrow> string" where
  "sanitizeTitle title =
     toLowerCase (collapse_spaces
       (filter (\<lambda>c. is_alnum c \<or> is_space c \<or> c = CHR ''-'') title))"

definition generateFilename :: "PexelsVideo \<Rightarrow> int \<Rightarrow> string" where
  "generateFilename videoData now =
     (let tgs = (if pv_tags videoData \<noteq> [] then join ''_'' (take 2 (pv_tags videoData))
                 else ''video'')
      in sanitizeTitle tgs @ ''_'' @ show_int (pv_id videoData) @ ''_'' @ show_int now @ ''.mp4'')"

definition extractCodec :: "string \<Rightarrow> string" where
  "extractCodec fileType =
     (if str_includes fileType ''mp4'' then ''h264''
      else if str_includes fileType ''webm'' then ''vp8''
      else ''unknown'')"

definition estimateBitrate :: "nat \<Rightarrow> rat \<Rightarrow> string" where
  "estimateBitrate fileSize dur =
     (if dur = 0 then ''unknown''
      else show_int (\<lfloor>of_nat (fileSize * 8) / dur / 1000 + 1 / 2\<rfloor>) @ ''kbps'')"

subsection \<open>Fetching one asset\<close>

text \<open>\<^verbatim>\<open>getExistingDownloadResult\<close> (lines 338 to 365): a failed read is caught and ends, like
  a missing record, in the error thrown at the end.\<close>

definition getExistingDownloadResult :: "world \<Rightarrow> int \<Rightarrow> (string + DownloadResult) \<times> world" where
  "getExistingDownloadResult w videoId =
     (let w1 = emit LedgerRead w;
          not_found = ''Video '' @ show_int videoId @ '' not found in downloads''
      in case metadataFile w of
           Ledger metadata \<Rightarrow>
             (case find (\<lambda>v. vm_id v = videoId) metadata of
                Some videoMetadata \<Rightarrow>
                  (Inr \<lparr>r_video_id = videoId,
                        r_local_path = local_path videoMetadata,
                        r_file_size = file_size videoMetadata,
                        download_time = 0,
                        r_metadata = \<lparr>r_width = width (pexels_metadata videoMetadata),
                                     r_height = height (pexels_metadata videoMetadata),
                                     r_duration = duration (pexels_metadata videoMetadata),
                                     r_fps = 0, codec = ''unknown'', bitrate = ''unknown''\<rparr>,
                        status = Success,
                        error = None\<rparr>, w1)
              | None \<Rightarrow> (Inl not_found, w1))
         | _ \<Rightarrow> (Inl not_found, w1))"

text \<open>The file name and the directory \<^verbatim>\<open>downloadVideo\<close> computes; an empty string is
  falsy, as an absent option is.\<close>

definition target_name :: "world \<Rightarrow> PexelsVideo \<Rightarrow> DownloadOptions \<Rightarrow> string" where
  "target_name w videoData options =
     (case o_filename options of
        Some f \<Rightarrow> if f = [] then generateFilename videoData (clock w) else f
      | None \<Rightarrow> generateFilename videoData (clock w))"

definition target_dir :: "world \<Rightarrow> DownloadOptions \<Rightarrow> string" where
  "target_dir w options =
     (case o_category options of
        Some c \<Rightarrow> if c = [] then downloadPath w else path_join (downloadPath w) c
      | None \<Rightarrow> downloadPath w)"

text \<open>The \<^verbatim>\<open>try\<close> block of \<^verbatim>\<open>downloadVideo\<close> once the asset is known not to be in
  \<^verbatim>\<open>downloadedVideos\<close> and a rendition has been chosen: directory, transfer, stream write,
  ledger record. \<open>Inl\<close> carries the message of the error thrown.\<close>

definition transfer ::
  "world \<Rightarrow> PexelsVideo \<Rightarrow> DownloadOptions \<Rightarrow> video_file \<Rightarrow> (string + DownloadResult) \<times> world" where
  "transfer w videoData options videoFile =
     (let startTime = clock w; videoId = video_id options;
          fname = target_name w videoData options;
          categoryPath = target_dir w options;
          localPath = path_join categoryPath fname;
          w1 = emit (EnsureDir categoryPath) w
      in case dir_error w categoryPath of
           Some msg \<Rightarrow> (Inl msg, w1)
         | None \<Rightarrow>
             (let w2 = (emit (HttpGet videoId (link videoFile)) w1)
                         \<lparr>clock := clock w + int (latency w (link videoFile))\<rparr>
              in case http w (link videoFile) of
                   Inl msg \<Rightarrow> (Inl msg, w2)
                 | Inr sz \<Rightarrow>
                     (let w3 = emit (FileWrite localPath) w2
                      in case write_error w localPath of
                           Some msg \<Rightarrow> (Inl msg, w3)
                         | None \<Rightarrow>
                             (let w4 = w3\<lparr>files := (files w3)(localPath \<mapsto> sz)\<rparr>;
                                  downloadTime = of_int (clock w4 - startTime) / 1000;
                                  vm = \<lparr>vm_id = videoId,
                                        filename = fname,
                                        local_path = localPath,
                                        file_size = sz,
                                        download_date = clock w4,
                                        category = o_category options,
                                        pexels_metadata =
                                          \<lparr>width = pv_width videoData,
                                           height = pv_height videoData,
                                           duration = pv_duration videoData,
                                           url = pv_url videoData,
                                           tags = pv_tags videoData,
                                           user = pv_user videoData\<rparr>\<rparr>;
                                  w5 = saveMetadata w4 vm
                              in (Inr \<lparr>r_video_id = videoId,
                                       r_local_path = localPath,
                                       r_file_size = sz,
                                       download_time = downloadTime,
                                       r_metadata =
                                         \<lparr>r_width = vf_width videoFile,
                                          r_height = vf_height videoFile,
                                          r_duration = pv_duration videoData,
                                          r_fps = vf_fps videoFile,
                                          codec = extractCodec (file_type videoFile),
                                          bitrate = estimateBitrate sz (pv_duration videoData)\<rparr>,
                                       status = Success,
                                       error = None\<rparr>, w5)))))"

text \<open>The whole \<^verbatim>\<open>try\<close> block of \<^verbatim>\<open>downloadVideo\<close> (lines 130 to 235), read as one
  computation: the check against \<^verbatim>\<open>downloadedVideos\<close>, the choice of a rendition, then the
  transfer.\<close>

definition download_body ::
  "world \<Rightarrow> PexelsVideo \<Rightarrow> DownloadOptions \<Rightarrow> (string + DownloadResult) \<times> world" where
  "download_body w videoData options =
     (if video_id options \<in> downloadedVideos w then getExistingDownloadResult w (video_id options)
      else
        case selectBestQuality (video_files videoData)
               (case o_quality options of Some q \<Rightarrow> quality_name q | None \<Rightarrow> ''hd'') of
          None \<Rightarrow>
            (Inl (''No suitable video file found for quality: '' @
                  (case o_quality options of Some q \<Rightarrow> quality_name q | None \<Rightarrow> ''undefined'')), w)
        | Some videoFile \<Rightarrow> transfer w videoData options videoFile)"

text \<open>The result built by the \<^verbatim>\<open>catch\<close> block.\<close>

definition failed_result :: "int \<Rightarrow> rat \<Rightarrow> string \<Rightarrow> DownloadResult" where
  "failed_result videoId elapsed msg =
     \<lparr>r_video_id = videoId, r_local_path = [], r_file_size = 0, download_time = elapsed,
      r_metadata = \<lparr>r_width = 0, r_height = 0, r_duration = 0, r_fps = 0, codec = [], bitrate = []\<rparr>,
      status = Failed, error = Some msg\<rparr>"

text \<open>
  \<^verbatim>\<open>downloadVideo\<close>: \<open>Inr\<close> is the result the promise resolves to, \<open>Inl\<close> the message it
  rejects with. For an id in \<^verbatim>\<open>downloadedVideos\<close> the promise of
  \<^verbatim>\<open>getExistingDownloadResult\<close> is returned without \<^verbatim>\<open>await\<close> (line 138), so its rejection
  is not caught by the \<^verbatim>\<open>catch\<close> block and is the rejection of \<^verbatim>\<open>downloadVideo\<close>. Every
  other error of the \<^verbatim>\<open>try\<close> block is thrown inside it and becomes a failed result.
\<close>

definition downloadVideo ::
  "world \<Rightarrow> PexelsVideo \<Rightarrow> DownloadOptions \<Rightarrow> (string + DownloadResult) \<times> world" where
  "downloadVideo w videoData options =
     (if video_id options \<in> downloadedVideos w
      then getExistingDownloadResult w (video_id options)
      else
        case download_body w videoData options of
          (Inr result, w') \<Rightarrow> (Inr result, w')
        | (Inl msg, w') \<Rightarrow>
            (Inr (failed_result (video_id options) (of_int (clock w' - clock w) / 1000) msg), w'))"

subsection \<open>Fetching a batch\<close>

text \<open>The filter callback of \<^verbatim>\<open>filterVideos\<close> (lines 265 to 293); a criterion that is absent or zero is
  falsy and filters nothing.\<close>

definition keep_video :: "world \<Rightarrow> FilterCriteria \<Rightarrow> PexelsVideo \<Rightarrow> bool" where
  "keep_video w criteria video =
     (if (case min_width criteria of Some m \<Rightarrow> m \<noteq> 0 \<and> pv_width video < m | None \<Rightarrow> False) then False
      else if (case min_height criteria of Some m \<Rightarrow> m \<noteq> 0 \<and> pv_height video < m | None \<Rightarrow> False) then False
      else if (case preferred_fps criteria of
                 Some f \<Rightarrow> f \<noteq> 0 \<and> \<not> list_ex (\<lambda>file. vf_fps file = f) (video_files video)
               | None \<Rightarrow> False) then False
      else if (case exclude_ids criteria of Some ids \<Rightarrow> pv_id video \<in> set ids | None \<Rightarrow> False) then False
      else if pv_id video \<in> downloadedVideos w then False
      else True)"

definition filterVideos :: "world \<Rightarrow> PexelsVideo list \<Rightarrow> BatchDownloadOptions \<Rightarrow> PexelsVideo list" where
  "filterVideos w videos options =
     (case filter_criteria options of
        None \<Rightarrow> videos
      | Some criteria \<Rightarrow> filter (keep_video w criteria) videos)"

text \<open>\<^verbatim>\<open>Array.prototype.slice(0, e)\<close>: a negative end counts from the end of the array.\<close>

definition slice0 :: "'a list \<Rightarrow> int \<Rightarrow> 'a list" where
  "slice0 xs e = (if e < 0 then take (nat (int (length xs) + e)) xs else take (nat e) xs)"

text \<open>The fetches of a batch, one after the other in the order of the list (the tasks of the
  source run under a concurrency limit; their interleaving is not modelled). Each task
  settles on its own: a rejected one does not stop the ones after it.\<close>

fun download_all ::
  "world \<Rightarrow> PexelsVideo list \<Rightarrow> BatchDownloadOptions \<Rightarrow> (string + DownloadResult) list \<times> world" where
  "download_all w [] options = ([], w)"
| "download_all w (video # rest) options =
     (let (r, w1) = downloadVideo w video
                      \<lparr>video_id = pv_id video, o_quality = b_quality options,
                       o_filename = None, o_category = b_category options\<rparr>;
          (rs, w2) = download_all w1 rest options
      in (r # rs, w2))"

text \<open>\<^verbatim>\<open>Promise.all\<close>: the list of the values when every promise resolves, the first
  rejection otherwise.\<close>

fun promise_all :: "(string + 'a) list \<Rightarrow> string + 'a list" where
  "promise_all [] = Inr []"
| "promise_all (Inl msg # rest) = Inl msg"
| "promise_all (Inr x # rest) = (case promise_all rest of Inl msg \<Rightarrow> Inl msg | Inr xs \<Rightarrow> Inr (x # xs))"

text \<open>\<^verbatim>\<open>batchDownload\<close> (lines 237 to 263): filter, cut to \<^verbatim>\<open>max_videos || 10\<close>, fetch, and
  await all the fetches; \<open>Inl\<close> is the rejection of the batch.\<close>

definition batchDownload ::
  "world \<Rightarrow> PexelsVideo list \<Rightarrow> BatchDownloadOptions \<Rightarrow> (string + DownloadResult list) \<times> world" where
  "batchDownload w videos options =
     (let filteredVideos = filterVideos w videos options;
          maxVideos = (case max_videos options of Some m \<Rightarrow> if m = 0 then 10 else m | None \<Rightarrow> 10);
          videosToDownload = slice0 filteredVideos maxVideos;
          (results, w') = download_all w videosToDownload options
      in (promise_all results, w'))"

section \<open>Organizing the ledger (organization-manager.ts)\<close>

record OrganizationOptions =
  organization_scheme :: "scheme option"
  custom_rules :: "OrganizationScheme option"

record OrganizationResult =
  o_status :: status
  moved_files :: nat
  categories_created :: "string list"
  errors :: "string list"

text \<open>\<^verbatim>\<open>moveVideoToCategory\<close> (organization-manager.ts, lines 160 to 191): whether the file was moved, the record as it is afterwards,
  and the world. \<^verbatim>\<open>fs.move\<close> rejects when the source is absent, when the destination
  exists, or when the environment refuses; every rejection is caught here.\<close>

definition moveVideoToCategory ::
  "world \<Rightarrow> VideoMetadata \<Rightarrow> string \<Rightarrow> string \<Rightarrow> (bool \<times> VideoMetadata) \<times> world" where
  "moveVideoToCategory w video cat dlPath =
     (let currentPath = local_path video;
          categoryDir = path_join dlPath cat;
          newPath = path_join categoryDir (filename video)
      in if currentPath = newPath then ((False, video), w)
         else
           (let w1 = emit (EnsureDir categoryDir) w in
            case dir_error w categoryDir of
              Some msg \<Rightarrow> ((False, video), w1)
            | None \<Rightarrow>
                (let w2 = emit (FileMove currentPath newPath) w1 in
                 case files w currentPath of
                   None \<Rightarrow> ((False, video), w2)
                 | Some sz \<Rightarrow>
                     if files w newPath \<noteq> None \<or> move_error w currentPath newPath \<noteq> None
                     then ((False, video), w2)
                     else ((True, video\<lparr>local_path := newPath, category := Some cat\<rparr>),
                           w2\<lparr>files := (files w2)(currentPath := None, newPath \<mapsto> sz)\<rparr>))))"

text \<open>What passes \<^verbatim>\<open>if (category)\<close> (line 89): a category that is neither \<^verbatim>\<open>null\<close> nor the
  empty string.\<close>

definition truthy :: "string option \<Rightarrow> string option" where
  "truthy c = (case c of None \<Rightarrow> None | Some x \<Rightarrow> if x = [] then None else Some x)"

text \<open>The loop of \<^verbatim>\<open>organizeByCategory\<close> (lines 85 to 102) over the records read from the
  ledger. With records of the declared shape \<^verbatim>\<open>categorizeVideo\<close>
  cannot throw and \<^verbatim>\<open>moveVideoToCategory\<close> catches its own errors, so the \<^verbatim>\<open>catch\<close> of
  the loop body is never entered.\<close>

fun organize_loop ::
  "world \<Rightarrow> OrganizationScheme \<Rightarrow> scheme \<Rightarrow> VideoMetadata list \<Rightarrow> OrganizationResult \<Rightarrow>
   (VideoMetadata list \<times> OrganizationResult) \<times> world" where
  "organize_loop w rules sch [] result = (([], result), w)"
| "organize_loop w rules sch (video # rest) result =
     (case truthy (categorizeVideo video rules sch) of
        None \<Rightarrow>
          (let ((rest', result'), w') = organize_loop w rules sch rest result
           in ((video # rest', result'), w'))
      | Some cat \<Rightarrow>
          (let ((moved, video'), w1) = moveVideoToCategory w video cat (downloadPath w);
               result1 = (if moved
                          then result\<lparr>moved_files := moved_files result + 1,
                                      categories_created :=
                                        (if cat \<in> set (categories_created result)
                                         then categories_created result
                                         else categories_created result @ [cat])\<rparr>
                          else result);
               ((rest', result'), w') = organize_loop w1 rules sch rest result1
           in ((video' # rest', result'), w')))"

definition scheme_name :: "scheme \<Rightarrow> string" where
  "scheme_name s =
     (case s of Emotion \<Rightarrow> ''emotion'' | Energy \<Rightarrow> ''energy'' | Color \<Rightarrow> ''color''
      | Duration \<Rightarrow> ''duration'' | Custom \<Rightarrow> ''custom'')"

text \<open>The outer \<^verbatim>\<open>catch\<close>: status failed, the message appended to the errors.\<close>

definition organize_failed :: "OrganizationResult \<Rightarrow> string \<Rightarrow> OrganizationResult" where
  "organize_failed result msg = result\<lparr>o_status := Failed, errors := errors result @ [msg]\<rparr>"

text \<open>The scheme and the rule set a run uses: \<^verbatim>\<open>options.organization_scheme || 'emotion'\<close>,
  then the caller's rules for \<^verbatim>\<open>custom\<close> and the built-in table otherwise. \<open>None\<close> is
  the falsy \<^verbatim>\<open>rules\<close> of the source.\<close>

definition chosen_scheme :: "OrganizationOptions \<Rightarrow> scheme" where
  "chosen_scheme options = (case organization_scheme options of Some s \<Rightarrow> s | None \<Rightarrow> Emotion)"

definition chosen_rules :: "OrganizationOptions \<Rightarrow> OrganizationScheme option" where
  "chosen_rules options =
     (if chosen_scheme options = Custom then custom_rules options
      else organizationSchemes (chosen_scheme options))"

text \<open>\<^verbatim>\<open>organizeByCategory\<close> (lines 55 to 115).\<close>

definition organizeByCategory :: "world \<Rightarrow> OrganizationOptions \<Rightarrow> OrganizationResult \<times> world" where
  "organizeByCategory w options =
     (let result = \<lparr>o_status = Success, moved_files = 0, categories_created = [], errors = []\<rparr>;
          sch = chosen_scheme options
      in case chosen_rules options of
           None \<Rightarrow> (organize_failed result (''Invalid organization scheme: '' @ scheme_name sch), w)
         | Some rules \<Rightarrow>
             (case metadataFile w of
                Missing \<Rightarrow> (organize_failed result ''No downloaded videos found'', w)
              | Unreadable msg \<Rightarrow> (organize_failed result msg, emit LedgerRead w)
              | Ledger recs \<Rightarrow>
                  (let ((recs', result'), w1) =
                         organize_loop (emit LedgerRead w) rules sch recs result;
                       w2 = emit LedgerWrite w1
                   in case ledger_write_error w1 of
                        Some msg \<Rightarrow> (organize_failed result' msg, w2)
                      | None \<Rightarrow> (result', w2\<lparr>metadataFile := Ledger recs'\<rparr>))))"

section \<open>Vocabulary of the properties\<close>

text \<open>The asset ids recorded in the ledger file, in file order.\<close>

definition ledger_ids :: "world \<Rightarrow> int list" where
  "ledger_ids w = (case metadataFile w of Ledger recs \<Rightarrow> map vm_id recs | _ \<Rightarrow> [])"

text \<open>At most one record per asset id.\<close>

definition ledger_unique :: "world \<Rightarrow> bool" where
  "ledger_unique w = distinct (ledger_ids w)"

text \<open>The events an operation added to the trace when it took the world \<open>w\<close> to \<open>w'\<close>.\<close>

definition new_events :: "world \<Rightarrow> world \<Rightarrow> io_event list" where
  "new_events w w' = drop (length (trace w)) (trace w')"

text \<open>The asset ids for which a list of events holds a network transfer.\<close>

fun fetched_ids :: "io_event list \<Rightarrow> int list" where
  "fetched_ids [] = []"
| "fetched_ids (HttpGet vid u # es) = vid # fetched_ids es"
| "fetched_ids (_ # es) = fetched_ids es"

text \<open>Events that write to the file system.\<close>

fun is_fs_write :: "io_event \<Rightarrow> bool" where
  "is_fs_write LedgerRead = False"
| "is_fs_write (HttpGet vid u) = False"
| "is_fs_write _ = True"

text \<open>The directories a list of events tried to create.\<close>

fun ensured_dirs :: "io_event list \<Rightarrow> string list" where
  "ensured_dirs [] = []"
| "ensured_dirs (EnsureDir d # es) = d # ensured_dirs es"
| "ensured_dirs (_ # es) = ensured_dirs es"

text \<open>A record that a run has to relocate: it is assigned a category that passes the test of
  the loop and is not yet at the path that category gives it.\<close>

definition needs_move :: "string \<Rightarrow> OrganizationScheme \<Rightarrow> scheme \<Rightarrow> VideoMetadata \<Rightarrow> bool" where
  "needs_move dlPath rules sch video =
     (case truthy (categorizeVideo video rules sch) of
        None \<Rightarrow> False
      | Some cat \<Rightarrow> local_path video \<noteq> path_join (path_join dlPath cat) (filename video))"

text \<open>The manager's set of downloaded ids holds exactly the ids recorded in the ledger file:
  the state \<^verbatim>\<open>loadMetadata\<close> establishes and every operation keeps.\<close>

definition in_sync :: "world \<Rightarrow> bool" where
  "in_sync w = (downloadedVideos w = set (ledger_ids w))"

text \<open>The keyword count as the specification words it: the keywords that occur, as they are
  written, in the lowercased tag string.\<close>

definition spec_keyword_count :: "string \<Rightarrow> string list \<Rightarrow> nat" where
  "spec_keyword_count allTags keywords = length (filter (\<lambda>k. sublist k allTags) keywords)"

text \<open>The preference order the specification gives for a requested quality.\<close>

definition spec_preference :: "quality \<Rightarrow> string list" where
  "spec_preference q =
     (case q of
        HD \<Rightarrow> [''hd'', ''sd'', ''mobile'']
      | SD \<Rightarrow> [''sd'', ''hd'', ''mobile'']
      | Mobile \<Rightarrow> [''mobile'', ''sd'', ''hd''])"

section \<open>Concrete inputs\<close>

definition demo_user :: pexels_user where
  "demo_user = \<lparr>user_id = 7, user_name = ''ann'', user_url = ''u''\<rparr>"

definition demo_record :: "int \<Rightarrow> string \<Rightarrow> rat \<Rightarrow> string list \<Rightarrow> VideoMetadata" where
  "demo_record i name d tgs =
     \<lparr>vm_id = i, filename = name, local_path = ''downloads/'' @ name, file_size = 2048,
      download_date = 1000, category = None,
      pexels_metadata = \<lparr>width = 1920, height = 1080, duration = d, url = ''p'', tags = tgs,
                          user = demo_user\<rparr>\<rparr>"

definition demo_file :: "string \<Rightarrow> string \<Rightarrow> video_file" where
  "demo_file q l =
     \<lparr>vf_id = 1, vf_quality = q, file_type = ''video/mp4'', vf_width = 1280, vf_height = 720,
      vf_fps = 30, link = l\<rparr>"

definition demo_video :: "int \<Rightarrow> video_file list \<Rightarrow> PexelsVideo" where
  "demo_video i fs =
     \<lparr>pv_id = i, pv_width = 1920, pv_height = 1080, pv_duration = 20, pv_url = ''p'',
      pv_user = demo_user, video_files = fs, pv_tags = [''forest'']\<rparr>"

definition demo_options :: "int \<Rightarrow> DownloadOptions" where
  "demo_options i =
     \<lparr>video_id = i, o_quality = Some Mobile, o_filename = Some ''new.mp4'', o_category = None\<rparr>"

text \<open>The default download directory \<^verbatim>\<open>./downloads\<close> holding one fetched asset, id 1, known
  to the manager.\<close>

definition demo_world :: world where
  "demo_world =
     \<lparr>metadataFile = Ledger [demo_record 1 ''clip.mp4'' 15 [''forest'']],
      ledger_write_error = None,
      files = [''downloads/clip.mp4'' \<mapsto> 2048],
      dir_error = (\<lambda>d. None),
      http = (\<lambda>u. Inr 4096),
      latency = (\<lambda>u. 250),
      write_error = (\<lambda>p. None),
      move_error = (\<lambda>a b. None),
      clock = 5000,
      downloadPath = ''./downloads'',
      downloadedVideos = {1},
      trace = []\<rparr>"

definition demo_cache :: "nat CacheManager" where
  "demo_cache =
     \<lparr>cache = [''k'' \<mapsto> \<lparr>data = 1, timestamp = 0, expiresAt = 5\<rparr>], cache_duration = 3600\<rparr>"

text \<open>A download directory with two recorded assets; the file of asset 1 is gone from the
  disk, the file of asset 2 is in place.\<close>

definition demo_world2 :: world where
  "demo_world2 =
     \<lparr>metadataFile = Ledger [demo_record 1 ''a.mp4'' 15 [], demo_record 2 ''b.mp4'' 50 []],
      ledger_write_error = None,
      files = [''downloads/b.mp4'' \<mapsto> 2048],
      dir_error = (\<lambda>d. None),
      http = (\<lambda>u. Inr 4096),
      latency = (\<lambda>u. 250),
      write_error = (\<lambda>p. None),
      move_error = (\<lambda>a b. None),
      clock = 5000,
      downloadPath = ''./downloads'',
      downloadedVideos = {1, 2},
      trace = []\<rparr>"

definition demo_duration_options :: OrganizationOptions where
  "demo_duration_options = \<lparr>organization_scheme = Some Duration, custom_rules = None\<rparr>"

definition demo_batch_options :: "FilterCriteria option \<Rightarrow> BatchDownloadOptions" where
  "demo_batch_options c =
     \<lparr>max_videos = Some 2, b_quality = None, b_category = None, filter_criteria = c\<rparr>"


text \<open>A record tagged \<^verbatim>\<open>forest\<close> and \<^verbatim>\<open>tree\<close>, and a custom rule set whose first two
  categories both match one keyword of it.\<close>

definition demo_tagged :: VideoMetadata where
  "demo_tagged = demo_record 1 ''a.mp4'' 15 [''forest'', ''tree'']"

definition demo_rules :: OrganizationScheme where
  "demo_rules = [(''first'', [''Forest'']), (''second'', [''TREE'']), (''third'', [])]"

section \<open>Lemmas\<close>

subsection \<open>Substrings, scores and the best category\<close>

lemma str_includes_sublist: "str_includes t k \<longleftrightarrow> sublist k t"
  by (induction t) (auto simp: sublist_Cons_right)

lemma score_loop_count:
  "score_loop t ks n = n + length (filter (\<lambda>k. sublist (toLowerCase k) t) ks)"
  by (induction ks arbitrary: n) (auto simp: str_includes_sublist)

lemma calculateCategoryScore_count:
  "calculateCategoryScore t ks = length (filter (\<lambda>k. sublist (toLowerCase k) t) ks)"
  by (simp add: calculateCategoryScore_def score_loop_count)

lemma best_loop_char:
  "best_loop t rs (bc, bs) =
     (let m = Max (insert bs ((\<lambda>x. calculateCategoryScore t (snd x)) ` set rs)) in
      if m > bs then (map_option fst (find (\<lambda>x. calculateCategoryScore t (snd x) = m) rs), m)
      else (bc, bs))"
proof (induction rs arbitrary: bc bs)
  case Nil
  then show ?case by simp
next
  case (Cons r rs)
  obtain c k where r: "r = (c, k)" by (cases r)
  define sk where "sk = calculateCategoryScore t k"
  define S where "S = (\<lambda>x. calculateCategoryScore t (snd x)) ` set rs"
  have fin: "finite S" by (simp add: S_def)
  have img: "(\<lambda>x. calculateCategoryScore t (snd x)) ` set (r # rs) = insert sk S"
    by (simp add: r sk_def S_def)
  show ?case
  proof (cases "sk > bs")
    case True
    define M' where "M' = Max (insert sk S)"
    have M'ge: "sk \<le> M'" unfolding M'_def using fin by simp
    have "Max (insert bs (insert sk S)) = max bs (Max (insert sk S))"
      using fin by (intro Max_insert) auto
    then have M: "Max (insert bs (insert sk S)) = M'"
      using True M'ge by (simp add: M'_def)
    have step: "best_loop t (r # rs) (bc, bs) = best_loop t rs (Some c, sk)"
      using True by (simp add: r sk_def)
    have IH: "best_loop t rs (Some c, sk) =
        (if M' > sk then (map_option fst (find (\<lambda>x. calculateCategoryScore t (snd x) = M') rs), M')
         else (Some c, sk))"
      using Cons.IH[of "Some c" sk] by (simp add: M'_def S_def Let_def)
    show ?thesis
      unfolding step IH img M Let_def using True M'ge
      by (auto simp: r sk_def)
  next
    case False
    define M' where "M' = Max (insert bs S)"
    have M'ge: "bs \<le> M'" unfolding M'_def using fin by simp
    have "Max (insert sk (insert bs S)) = max sk (Max (insert bs S))"
      using fin by (intro Max_insert) auto
    then have "Max (insert sk (insert bs S)) = M'"
      using False M'ge by (simp add: M'_def)
    then have M: "Max (insert bs (insert sk S)) = M'"
      by (simp add: insert_commute)
    have step: "best_loop t (r # rs) (bc, bs) = best_loop t rs (bc, bs)"
      using False by (simp add: r sk_def)
    have IH: "best_loop t rs (bc, bs) =
        (if M' > bs then (map_option fst (find (\<lambda>x. calculateCategoryScore t (snd x) = M') rs), M')
         else (bc, bs))"
      using Cons.IH[of bc bs] by (simp add: M'_def S_def Let_def)
    show ?thesis
      unfolding step IH img M Let_def using False M'ge
      by (auto simp: r sk_def)
  qed
qed

lemma categorizeVideo_tags_find:
  assumes "sch \<noteq> Duration"
  shows "categorizeVideo video rules sch =
     (let t = toLowerCase (join '' '' (tags (pexels_metadata video)));
          m = Max (insert 0 ((\<lambda>x. calculateCategoryScore t (snd x)) ` set rules))
      in if m > 0 then map_option fst (find (\<lambda>x. calculateCategoryScore t (snd x) = m) rules)
         else None)"
  using assms by (simp add: categorizeVideo_def best_loop_char Let_def)

lemma demo_lower:
  "toLowerCase ''forest tree'' = ''forest tree''"
  "toLowerCase ''Forest'' = ''forest''"
  "toLowerCase ''TREE'' = ''tree''"
  "toLowerCase ''forest'' = ''forest''"
  by code_simp+

lemma demo_paths:
  "path_join ''./downloads'' ''short'' = ''downloads/short''"
  "path_join ''./downloads'' ''long'' = ''downloads/long''"
  "path_join ''downloads/short'' ''a.mp4'' = ''downloads/short/a.mp4''"
  "path_join ''downloads/long'' ''b.mp4'' = ''downloads/long/b.mp4''"
  "path_join ''./downloads'' ''new.mp4'' = ''downloads/new.mp4''"
  by (simp_all add: path_join_def normalize_def)

subsection \<open>Events and record fields\<close>

lemma trace_emit [simp]: "trace (emit e w) = trace w @ [e]"
  by (simp add: emit_def)

lemma emit_fields [simp]:
  "metadataFile (emit e w) = metadataFile w"
  "ledger_write_error (emit e w) = ledger_write_error w"
  "files (emit e w) = files w"
  "dir_error (emit e w) = dir_error w"
  "http (emit e w) = http w"
  "latency (emit e w) = latency w"
  "write_error (emit e w) = write_error w"
  "move_error (emit e w) = move_error w"
  "clock (emit e w) = clock w"
  "downloadPath (emit e w) = downloadPath w"
  "downloadedVideos (emit e w) = downloadedVideos w"
  by (simp_all add: emit_def)

lemma new_events_append: "trace w' = trace w @ es \<Longrightarrow> new_events w w' = es"
  by (simp add: new_events_def)

lemma new_events_emit [simp]: "new_events w (emit e w) = [e]"
  by (simp add: new_events_def)

lemma fetched_ids_append [simp]: "fetched_ids (xs @ ys) = fetched_ids xs @ fetched_ids ys"
  by (induction xs rule: fetched_ids.induct) auto

lemma ensured_dirs_append [simp]: "ensured_dirs (xs @ ys) = ensured_dirs xs @ ensured_dirs ys"
  by (induction xs rule: ensured_dirs.induct) auto

lemma ledger_ids_upd [simp]:
  "ledger_ids (w\<lparr>trace := t\<rparr>) = ledger_ids w"
  "ledger_ids (w\<lparr>clock := c\<rparr>) = ledger_ids w"
  "ledger_ids (w\<lparr>files := fs\<rparr>) = ledger_ids w"
  "ledger_ids (w\<lparr>downloadedVideos := d\<rparr>) = ledger_ids w"
  "ledger_ids (emit e w) = ledger_ids w"
  by (simp_all add: ledger_ids_def)

lemma ledger_unique_upd [simp]:
  "ledger_unique (w\<lparr>trace := t\<rparr>) = ledger_unique w"
  "ledger_unique (w\<lparr>clock := c\<rparr>) = ledger_unique w"
  "ledger_unique (w\<lparr>files := fs\<rparr>) = ledger_unique w"
  "ledger_unique (w\<lparr>downloadedVideos := d\<rparr>) = ledger_unique w"
  "ledger_unique (emit e w) = ledger_unique w"
  by (simp_all add: ledger_unique_def)

lemma in_sync_upd [simp]:
  "in_sync (w\<lparr>trace := t\<rparr>) = in_sync w"
  "in_sync (w\<lparr>clock := c\<rparr>) = in_sync w"
  "in_sync (w\<lparr>files := fs\<rparr>) = in_sync w"
  "in_sync (emit e w) = in_sync w"
  by (simp_all add: in_sync_def)

subsection \<open>Choosing a rendition\<close>

lemma find_preferred_three:
  "find_preferred fs [a, b, c] =
     (case find (\<lambda>p. \<exists>f\<in>set fs. vf_quality f = p) [a, b, c] of
        Some p \<Rightarrow> find (\<lambda>f. vf_quality f = p) fs
      | None \<Rightarrow> (case fs of [] \<Rightarrow> None | f # _ \<Rightarrow> Some f))"
proof -
  have ex: "(\<exists>f\<in>set fs. vf_quality f = p) \<longleftrightarrow> find (\<lambda>f. vf_quality f = p) fs \<noteq> None" for p
    by (auto simp: find_None_iff)
  show ?thesis
    by (auto simp: ex split: option.splits)
qed

lemma selectBestQuality_spec:
  "selectBestQuality fs (quality_name q) =
     (case find (\<lambda>p. \<exists>f\<in>set fs. vf_quality f = p) (spec_preference q) of
        Some p \<Rightarrow> find (\<lambda>f. vf_quality f = p) fs
      | None \<Rightarrow> (case fs of [] \<Rightarrow> None | f # _ \<Rightarrow> Some f))"
  by (cases q)
     (simp_all add: selectBestQuality_def quality_name_def qualityOrder_def spec_preference_def
        find_preferred_three del: find_preferred.simps find.simps)

lemma selectBestQuality_Nil: "selectBestQuality [] s = None"
  by (simp add: selectBestQuality_def qualityOrder_def)

subsection \<open>Recording and fetching\<close>

lemma count_filtered: "count_list (map vm_id (filter (\<lambda>video. vm_id video \<noteq> i) recs)) i = 0"
  by (induction recs) auto

lemma saveMetadata_count:
  assumes "ledger_write_error w = None" and "\<forall>msg. metadataFile w \<noteq> Unreadable msg"
  shows "count_list (ledger_ids (saveMetadata w vm)) (vm_id vm) = 1"
  using assms
  by (cases "metadataFile w")
     (simp_all add: saveMetadata_def write_ledger_def ledger_ids_def Let_def emit_def count_filtered)

lemma saveMetadata_unique: "ledger_unique w \<Longrightarrow> ledger_unique (saveMetadata w vm)"
  by (auto simp: saveMetadata_def write_ledger_def ledger_unique_def ledger_ids_def Let_def
        distinct_map_filter
      split: ledger_file.splits option.splits)

lemma saveMetadata_trace:
  "\<exists>es. trace (saveMetadata w vm) = trace w @ es \<and> fetched_ids es = []"
  by (auto simp: saveMetadata_def write_ledger_def Let_def split: ledger_file.splits option.splits)

lemma saveMetadata_downloaded:
  "downloadedVideos w \<subseteq> downloadedVideos (saveMetadata w vm)"
  by (auto simp: saveMetadata_def write_ledger_def Let_def split: ledger_file.splits option.splits)

lemma saveMetadata_write_fails:
  assumes "ledger_write_error w = Some msg"
  shows "metadataFile (saveMetadata w vm) = metadataFile w"
    and "downloadedVideos (saveMetadata w vm) = downloadedVideos w"
    and "files (saveMetadata w vm) = files w"
  using assms
  by (auto simp: saveMetadata_def write_ledger_def Let_def split: ledger_file.splits option.splits)

lemma saveMetadata_trace_eq:
  "trace (saveMetadata w vm) = trace w @ new_events w (saveMetadata w vm)"
  using saveMetadata_trace[of w vm] by (auto simp: new_events_append)

lemma saveMetadata_no_fetch [simp]: "fetched_ids (new_events w (saveMetadata w vm)) = []"
  using saveMetadata_trace[of w vm] by (auto simp: new_events_append)

lemma getExisting_world: "snd (getExistingDownloadResult w vid) = emit LedgerRead w"
  by (simp add: getExistingDownloadResult_def Let_def split: ledger_file.splits option.splits)

lemma download_body_dedup:
  assumes "video_id options \<in> downloadedVideos w"
  shows "download_body w v options = getExistingDownloadResult w (video_id options)"
  using assms by (simp add: download_body_def)

lemma snd_downloadVideo: "snd (downloadVideo w v opts) = snd (download_body w v opts)"
  by (simp add: downloadVideo_def download_body_def split: prod.splits sum.splits)

lemma transfer_trace:
  "\<exists>es. trace (snd (transfer w v opts f)) = trace w @ es \<and> set (fetched_ids es) \<subseteq> {video_id opts}"
  unfolding transfer_def Let_def
  by (simp add: saveMetadata_trace_eq emit_def split: option.splits sum.splits)

lemma download_body_trace:
  "\<exists>es. trace (snd (download_body w v opts)) = trace w @ es \<and>
        set (fetched_ids es) \<subseteq> {video_id opts} \<and>
        (video_id opts \<in> downloadedVideos w \<longrightarrow> es = [LedgerRead])"
  using transfer_trace[of w v opts]
  by (auto simp: download_body_def getExisting_world split: option.splits)

lemma transfer_downloaded: "downloadedVideos w \<subseteq> downloadedVideos (snd (transfer w v opts f))"
proof -
  have "downloadedVideos w4 = downloadedVideos w \<Longrightarrow>
        downloadedVideos w \<subseteq> downloadedVideos (saveMetadata w4 vm)" for w4 vm
    using saveMetadata_downloaded[of w4 vm] by simp
  then show ?thesis
    unfolding transfer_def Let_def
    by (simp add: emit_def split: option.splits sum.splits)
qed

lemma download_body_downloaded:
  "downloadedVideos w \<subseteq> downloadedVideos (snd (download_body w v opts))"
  using transfer_downloaded[of w v opts]
  by (auto simp: download_body_def getExisting_world split: option.splits)

lemma transfer_unique:
  assumes "ledger_unique w"
  shows "ledger_unique (snd (transfer w v opts f))"
proof -
  have "metadataFile w4 = metadataFile w \<Longrightarrow> ledger_unique (saveMetadata w4 vm)" for w4 vm
    using saveMetadata_unique[of w4 vm] assms by (simp add: ledger_unique_def ledger_ids_def)
  then show ?thesis
    unfolding transfer_def Let_def using assms
    by (simp add: emit_def split: option.splits sum.splits)
qed

lemma download_body_unique:
  assumes "ledger_unique w"
  shows "ledger_unique (snd (download_body w v opts))"
  using transfer_unique[OF assms, of v opts] assms
  by (auto simp: download_body_def getExisting_world split: option.splits)

lemma downloadVideo_trace:
  "\<exists>es. trace (snd (downloadVideo w v opts)) = trace w @ es \<and>
        set (fetched_ids es) \<subseteq> {video_id opts} \<and>
        (video_id opts \<in> downloadedVideos w \<longrightarrow> es = [LedgerRead])"
  unfolding snd_downloadVideo by (rule download_body_trace)

lemma downloadVideo_downloaded:
  "downloadedVideos w \<subseteq> downloadedVideos (snd (downloadVideo w v opts))"
  unfolding snd_downloadVideo by (rule download_body_downloaded)

lemma downloadVideo_unique:
  "ledger_unique w \<Longrightarrow> ledger_unique (snd (downloadVideo w v opts))"
  unfolding snd_downloadVideo by (rule download_body_unique)







subsection \<open>Batches\<close>


lemma snd_batchDownload:
  "snd (batchDownload w videos opts) =
     snd (download_all w (slice0 (filterVideos w videos opts)
            (case max_videos opts of Some m \<Rightarrow> if m = 0 then 10 else m | None \<Rightarrow> 10)) opts)"
  by (simp add: batchDownload_def Let_def split: prod.splits)


lemma download_all_effects:
  "(\<exists>es. trace (snd (download_all w vs opts)) = trace w @ es \<and>
         set (fetched_ids es) \<inter> downloadedVideos w = {}) \<and>
   downloadedVideos w \<subseteq> downloadedVideos (snd (download_all w vs opts)) \<and>
   (ledger_unique w \<longrightarrow> ledger_unique (snd (download_all w vs opts)))"
proof (induction vs arbitrary: w)
  case Nil
  then show ?case by simp
next
  case (Cons v vs)
  define o1 where "o1 = \<lparr>video_id = pv_id v, o_quality = b_quality opts,
      o_filename = None, o_category = b_category opts\<rparr>"
  obtain r w1 where d: "downloadVideo w v o1 = (r, w1)" by fastforce
  obtain rs w2 where a: "download_all w1 vs opts = (rs, w2)" by fastforce
  have step: "snd (download_all w (v # vs) opts) = w2"
    using d a by (simp add: o1_def)
  have w1: "w1 = snd (downloadVideo w v o1)" using d by simp
  obtain es1 where es1: "trace w1 = trace w @ es1" "set (fetched_ids es1) \<subseteq> {pv_id v}"
    "pv_id v \<in> downloadedVideos w \<longrightarrow> es1 = [LedgerRead]"
    using downloadVideo_trace[of w v o1] unfolding w1 by (auto simp: o1_def)
  have mono1: "downloadedVideos w \<subseteq> downloadedVideos w1"
    unfolding w1 by (rule downloadVideo_downloaded)
  have uniq1: "ledger_unique w \<longrightarrow> ledger_unique w1"
    unfolding w1 using downloadVideo_unique by blast
  from Cons.IH[of w1] a obtain es2 where es2: "trace w2 = trace w1 @ es2"
      "set (fetched_ids es2) \<inter> downloadedVideos w1 = {}"
    and mono2: "downloadedVideos w1 \<subseteq> downloadedVideos w2"
    and uniq2: "ledger_unique w1 \<longrightarrow> ledger_unique w2"
    by auto
  have f1: "set (fetched_ids es1) \<inter> downloadedVideos w = {}"
    using es1(2,3) by (cases "pv_id v \<in> downloadedVideos w") auto
  have f2: "set (fetched_ids es2) \<inter> downloadedVideos w = {}"
    using es2(2) mono1 by auto
  have "trace w2 = trace w @ (es1 @ es2) \<and> set (fetched_ids (es1 @ es2)) \<inter> downloadedVideos w = {}"
    using es1(1) es2(1) f1 f2 by auto
  then have "\<exists>es. trace w2 = trace w @ es \<and> set (fetched_ids es) \<inter> downloadedVideos w = {}"
    by blast
  then show ?case
    unfolding step using mono1 mono2 uniq1 uniq2 by auto
qed



subsection \<open>Categorization runs\<close>

lemma moveVideoToCategory_effects:
  assumes "moveVideoToCategory w video cat dl = ((moved, video'), w')"
  shows "vm_id video' = vm_id video"
    and "metadataFile w' = metadataFile w"
    and "ledger_write_error w' = ledger_write_error w"
    and "downloadPath w' = downloadPath w"
    and "downloadedVideos w' = downloadedVideos w"
    and "\<exists>es. trace w' = trace w @ es \<and>
           ensured_dirs es =
             (if local_path video = path_join (path_join dl cat) (filename video) then []
              else [path_join dl cat])"
  using assms
  by (auto simp: moveVideoToCategory_def Let_def emit_def split: if_splits option.splits)

lemma organize_loop_effects:
  assumes "organize_loop w rules sch recs result = ((recs', result'), w')"
  shows "map vm_id recs' = map vm_id recs \<and>
         metadataFile w' = metadataFile w \<and>
         ledger_write_error w' = ledger_write_error w \<and>
         downloadPath w' = downloadPath w \<and>
         downloadedVideos w' = downloadedVideos w \<and>
         errors result' = errors result \<and>
         o_status result' = o_status result \<and>
         moved_files result' \<le> moved_files result + length (filter (needs_move (downloadPath w) rules sch) recs) \<and>
         (\<exists>es. trace w' = trace w @ es \<and>
            ensured_dirs es =
              map (\<lambda>r. path_join (downloadPath w) (the (categorizeVideo r rules sch)))
                (filter (needs_move (downloadPath w) rules sch) recs))"
  using assms
proof (induction recs arbitrary: w result recs' result' w')
  case Nil
  then show ?case by simp
next
  case (Cons video rest)
  show ?case
  proof (cases "truthy (categorizeVideo video rules sch)")
    case None
    obtain rs r1 w1 where rec: "organize_loop w rules sch rest result = ((rs, r1), w1)"
      by (metis surj_pair)
    have eq: "recs' = video # rs" "result' = r1" "w' = w1"
      using Cons.prems None rec by simp_all
    have nm: "\<not> needs_move (downloadPath w) rules sch video"
      using None by (simp add: needs_move_def)
    show ?thesis
      using Cons.IH[OF rec] nm unfolding eq by simp
  next
    case (Some cat)
    obtain moved video' w1 where mv:
      "moveVideoToCategory w video cat (downloadPath w) = ((moved, video'), w1)"
      by (metis surj_pair)
    define result1 where "result1 = (if moved
                          then result\<lparr>moved_files := moved_files result + 1,
                                      categories_created :=
                                        (if cat \<in> set (categories_created result)
                                         then categories_created result
                                         else categories_created result @ [cat])\<rparr>
                          else result)"
    obtain rs r1 w2 where rec: "organize_loop w1 rules sch rest result1 = ((rs, r1), w2)"
      by (metis surj_pair)
    have eq: "recs' = video' # rs" "result' = r1" "w' = w2"
      using Cons.prems Some mv rec by (simp_all add: result1_def)
    note m = moveVideoToCategory_effects[OF mv]
    from m(6) obtain es1 where es1: "trace w1 = trace w @ es1"
      "ensured_dirs es1 =
             (if local_path video = path_join (path_join (downloadPath w) cat) (filename video) then []
              else [path_join (downloadPath w) cat])" by blast
    note ih = Cons.IH[OF rec]
    from ih obtain es2 where es2: "trace w2 = trace w1 @ es2"
      "ensured_dirs es2 =
              map (\<lambda>r. path_join (downloadPath w1) (the (categorizeVideo r rules sch)))
                (filter (needs_move (downloadPath w1) rules sch) rest)" by blast
    have moved_path: "moved \<longrightarrow> local_path video \<noteq> path_join (path_join (downloadPath w) cat) (filename video)"
      using mv by (auto simp: moveVideoToCategory_def Let_def split: if_splits option.splits)
    have nm: "needs_move (downloadPath w) rules sch video \<longleftrightarrow>
              local_path video \<noteq> path_join (path_join (downloadPath w) cat) (filename video)"
      using Some by (simp add: needs_move_def)
    have cv: "categorizeVideo video rules sch = Some cat"
      using Some by (auto simp: truthy_def split: option.splits if_splits)
    have r1a: "errors result1 = errors result" "o_status result1 = o_status result"
      by (simp_all add: result1_def)
    have r1b: "moved_files result1 \<le> moved_files result +
                 (if needs_move (downloadPath w) rules sch video then 1 else 0)"
      using moved_path nm by (simp add: result1_def)
    have tr: "trace w2 = trace w @ (es1 @ es2)" using es1(1) es2(1) by simp
    have ed: "ensured_dirs (es1 @ es2) =
              map (\<lambda>r. path_join (downloadPath w) (the (categorizeVideo r rules sch)))
                (filter (needs_move (downloadPath w) rules sch) (video # rest))"
      using es1(2) es2(2) m(4) nm cv by simp
    have ex: "\<exists>es. trace w2 = trace w @ es \<and>
            ensured_dirs es =
              map (\<lambda>r. path_join (downloadPath w) (the (categorizeVideo r rules sch)))
                (filter (needs_move (downloadPath w) rules sch) (video # rest))"
      using tr ed by blast
    have mf: "moved_files r1 \<le> moved_files result +
           length (filter (needs_move (downloadPath w) rules sch) (video # rest))"
    proof -
      have "moved_files r1 \<le> moved_files result1 +
              length (filter (needs_move (downloadPath w) rules sch) rest)"
        using ih m(4) by simp
      then show ?thesis using r1b by (cases "needs_move (downloadPath w) rules sch video") simp_all
    qed
    show ?thesis
      unfolding eq using ih m(1-5) r1a ex mf by simp
  qed
qed

lemma moveVideoToCategory_record:
  assumes "moveVideoToCategory w video cat dl = ((moved, video'), w')"
  shows "(moved \<longrightarrow> local_path video' \<noteq> local_path video) \<and> (\<not> moved \<longrightarrow> video' = video)"
  using assms
  by (auto simp: moveVideoToCategory_def Let_def split: if_splits option.splits)

lemma organize_loop_moved:
  assumes "organize_loop w rules sch recs result = ((recs', result'), w')"
  shows "length recs' = length recs \<and>
         moved_files result' =
           moved_files result +
           length (filter (\<lambda>(r, r'). local_path r' \<noteq> local_path r) (zip recs recs'))"
  using assms
proof (induction recs arbitrary: w result recs' result' w')
  case Nil
  then show ?case by simp
next
  case (Cons video rest)
  show ?case
  proof (cases "truthy (categorizeVideo video rules sch)")
    case None
    obtain rs r1 w1 where rec: "organize_loop w rules sch rest result = ((rs, r1), w1)"
      by (metis surj_pair)
    have eq: "recs' = video # rs" "result' = r1" "w' = w1"
      using Cons.prems None rec by simp_all
    show ?thesis
      using Cons.IH[OF rec] unfolding eq by simp
  next
    case (Some cat)
    obtain moved video' w1 where mv:
      "moveVideoToCategory w video cat (downloadPath w) = ((moved, video'), w1)"
      by (metis surj_pair)
    define result1 where "result1 = (if moved
                          then result\<lparr>moved_files := moved_files result + 1,
                                      categories_created :=
                                        (if cat \<in> set (categories_created result)
                                         then categories_created result
                                         else categories_created result @ [cat])\<rparr>
                          else result)"
    obtain rs r1 w2 where rec: "organize_loop w1 rules sch rest result1 = ((rs, r1), w2)"
      by (metis surj_pair)
    have eq: "recs' = video' # rs" "result' = r1" "w' = w2"
      using Cons.prems Some mv rec by (simp_all add: result1_def)
    note m = moveVideoToCategory_record[OF mv]
    have r1: "moved_files result1 = moved_files result + (if local_path video' \<noteq> local_path video then 1 else 0)"
      using m by (auto simp: result1_def)
    show ?thesis
      using Cons.IH[OF rec] r1 unfolding eq by simp
  qed
qed

lemma organize_unique:
  assumes "ledger_unique w"
  shows "ledger_unique (snd (organizeByCategory w opts))"
proof (cases "chosen_rules opts")
  case None
  then show ?thesis using assms by (simp add: organizeByCategory_def Let_def)
next
  case (Some rules)
  show ?thesis
  proof (cases "metadataFile w")
    case Missing
    then show ?thesis using assms Some by (simp add: organizeByCategory_def Let_def)
  next
    case (Unreadable msg)
    then show ?thesis using assms Some by (simp add: organizeByCategory_def Let_def)
  next
    case (Ledger recs)
    obtain recs' res' w1 where loop:
      "organize_loop (emit LedgerRead w) rules (chosen_scheme opts) recs
         \<lparr>o_status = Success, moved_files = 0, categories_created = [], errors = []\<rparr> = ((recs', res'), w1)"
      by (metis surj_pair)
    note e = organize_loop_effects[OF loop]
    have ids: "map vm_id recs' = map vm_id recs" and mf: "metadataFile w1 = metadataFile w"
      using e by simp_all
    have u1: "ledger_unique w1" using assms mf by (simp add: ledger_unique_def ledger_ids_def)
    have u2: "ledger_unique (w1\<lparr>trace := t, metadataFile := Ledger recs'\<rparr>)" for t
      using assms ids Ledger by (simp add: ledger_unique_def ledger_ids_def)
    show ?thesis
      using Some Ledger loop u1 u2
      by (simp add: organizeByCategory_def Let_def emit_def split: option.splits)
  qed
qed

section \<open>Properties of the program\<close>

subsection \<open>Skipping an asset that is already fetched\<close>

text \<open>
  A fetch whose asset id is in the manager's set of downloaded ids and has a record in the
  readable ledger file resolves to a success result with the path and the byte size of that
  record and a download time of zero; the only effect is one read of the ledger: no network
  transfer, no write to the file system, files and ledger unchanged.
\<close>

lemma fetch_dedup:
  assumes "video_id options \<in> downloadedVideos w"
    and "metadataFile w = Ledger recs"
    and "find (\<lambda>r. vm_id r = video_id options) recs = Some r"
  shows "(\<exists>res. fst (downloadVideo w v options) = Inr res \<and>
            status res = Success \<and>
            r_local_path res = local_path r \<and>
            r_file_size res = file_size r \<and>
            download_time res = 0) \<and>
         snd (downloadVideo w v options) = emit LedgerRead w \<and>
         fetched_ids (new_events w (snd (downloadVideo w v options))) = [] \<and>
         \<not> list_ex is_fs_write (new_events w (snd (downloadVideo w v options))) \<and>
         files (snd (downloadVideo w v options)) = files w \<and>
         metadataFile (snd (downloadVideo w v options)) = metadataFile w"
proof -
  have "downloadVideo w v options =
      (Inr \<lparr>r_video_id = video_id options, r_local_path = local_path r, r_file_size = file_size r,
        download_time = 0,
        r_metadata = \<lparr>r_width = width (pexels_metadata r), r_height = height (pexels_metadata r),
                      r_duration = duration (pexels_metadata r),
                      r_fps = 0, codec = ''unknown'', bitrate = ''unknown''\<rparr>,
        status = Success, error = None\<rparr>, emit LedgerRead w)"
    using assms
    by (simp add: downloadVideo_def getExistingDownloadResult_def Let_def)
  then show ?thesis by simp
qed

text \<open>Construction followed by \<^verbatim>\<open>loadMetadata\<close> puts the set in step with the ledger.\<close>

lemma loadMetadata_in_sync: "in_sync (loadMetadata (DownloadManager_new w path))"
  by (cases "metadataFile w")
     (simp_all add: loadMetadata_def DownloadManager_new_def in_sync_def ledger_ids_def emit_def)

text \<open>
  Once \<^verbatim>\<open>loadMetadata\<close> has run, a record in the ledger file is all it takes: the fetch is
  answered from the ledger as above.
\<close>

lemma fetch_dedup_after_load:
  assumes "metadataFile w = Ledger recs"
    and "find (\<lambda>r. vm_id r = video_id options) recs = Some r"
  shows "(\<exists>res. fst (downloadVideo (loadMetadata (DownloadManager_new w path)) v options) = Inr res \<and>
            status res = Success \<and>
            r_local_path res = local_path r \<and>
            r_file_size res = file_size r \<and>
            download_time res = 0) \<and>
         fetched_ids (new_events (loadMetadata (DownloadManager_new w path))
           (snd (downloadVideo (loadMetadata (DownloadManager_new w path)) v options))) = [] \<and>
         \<not> list_ex is_fs_write (new_events (loadMetadata (DownloadManager_new w path))
           (snd (downloadVideo (loadMetadata (DownloadManager_new w path)) v options)))"
proof -
  let ?w = "loadMetadata (DownloadManager_new w path)"
  have m: "metadataFile ?w = Ledger recs"
    using assms(1) by (simp add: loadMetadata_def DownloadManager_new_def)
  have "r \<in> set recs \<and> vm_id r = video_id options"
    using assms(2) by (auto simp: find_Some_iff)
  then have "video_id options \<in> set (map vm_id recs)" by force
  then have i: "video_id options \<in> downloadedVideos ?w"
    using assms(1) by (simp add: loadMetadata_def DownloadManager_new_def)
  from fetch_dedup[OF i m assms(2), of v] show ?thesis by simp
qed

text \<open>
  Claim C1, at the input where the code departs from it. The ledger file of the download
  directory holds a record for asset 1. The manager has just been constructed: the
  constructor has started \<^verbatim>\<open>initialize()\<close> without awaiting it, so \<^verbatim>\<open>loadMetadata\<close> has not
  run and the set of downloaded ids is empty. The fetch of asset 1 then transfers the asset
  again, writes to the file system and resolves to a result with a new path and a positive
  download time, where the claim requires the path of the record, a download time of zero
  and no transfer. The same fetch after \<^verbatim>\<open>loadMetadata\<close> makes no transfer.
\<close>

theorem fetch_before_load_refetches:
  "metadataFile (DownloadManager_new demo_world ''./downloads'') =
     Ledger [demo_record 1 ''clip.mp4'' 15 [''forest'']] \<and>
   find (\<lambda>r. vm_id r = 1) [demo_record 1 ''clip.mp4'' 15 [''forest'']] =
     Some (demo_record 1 ''clip.mp4'' 15 [''forest'']) \<and>
   downloadedVideos (DownloadManager_new demo_world ''./downloads'') = {} \<and>
   fetched_ids (new_events (DownloadManager_new demo_world ''./downloads'')
      (snd (downloadVideo (DownloadManager_new demo_world ''./downloads'')
              (demo_video 1 [demo_file ''hd'' ''a'']) (demo_options 1)))) = [1] \<and>
   list_ex is_fs_write (new_events (DownloadManager_new demo_world ''./downloads'')
      (snd (downloadVideo (DownloadManager_new demo_world ''./downloads'')
              (demo_video 1 [demo_file ''hd'' ''a'']) (demo_options 1)))) \<and>
   map_sum id r_local_path (fst (downloadVideo (DownloadManager_new demo_world ''./downloads'')
              (demo_video 1 [demo_file ''hd'' ''a'']) (demo_options 1))) = Inr ''downloads/new.mp4'' \<and>
   map_sum id download_time (fst (downloadVideo (DownloadManager_new demo_world ''./downloads'')
              (demo_video 1 [demo_file ''hd'' ''a'']) (demo_options 1))) = Inr (1 / 4) \<and>
   local_path (demo_record 1 ''clip.mp4'' 15 [''forest'']) = ''downloads/clip.mp4'' \<and>
   fetched_ids (new_events (loadMetadata (DownloadManager_new demo_world ''./downloads''))
      (snd (downloadVideo (loadMetadata (DownloadManager_new demo_world ''./downloads''))
              (demo_video 1 [demo_file ''hd'' ''a'']) (demo_options 1)))) = []"
proof -
  have a: "metadataFile (DownloadManager_new demo_world ''./downloads'') =
     Ledger [demo_record 1 ''clip.mp4'' 15 [''forest'']]"
    "downloadedVideos (DownloadManager_new demo_world ''./downloads'') = {}"
    by (simp_all add: DownloadManager_new_def demo_world_def)
  have b: "find (\<lambda>r. vm_id r = 1) [demo_record 1 ''clip.mp4'' 15 [''forest'']] =
     Some (demo_record 1 ''clip.mp4'' 15 [''forest''])"
    "local_path (demo_record 1 ''clip.mp4'' 15 [''forest'']) = ''downloads/clip.mp4''"
    by (simp_all add: demo_record_def)
  have c: "downloadVideo (DownloadManager_new demo_world ''./downloads'')
              (demo_video 1 [demo_file ''hd'' ''a'']) (demo_options 1) =
           transfer (DownloadManager_new demo_world ''./downloads'')
              (demo_video 1 [demo_file ''hd'' ''a'']) (demo_options 1) (demo_file ''hd'' ''a'')"
    by (simp add: DownloadManager_new_def demo_world_def demo_video_def demo_file_def
          demo_options_def downloadVideo_def download_body_def selectBestQuality_def
          qualityOrder_def quality_name_def transfer_def target_name_def target_dir_def
          demo_paths Let_def)
  have d: "fetched_ids (new_events (DownloadManager_new demo_world ''./downloads'')
      (snd (transfer (DownloadManager_new demo_world ''./downloads'')
              (demo_video 1 [demo_file ''hd'' ''a'']) (demo_options 1) (demo_file ''hd'' ''a'')))) = [1]"
    "list_ex is_fs_write (new_events (DownloadManager_new demo_world ''./downloads'')
      (snd (transfer (DownloadManager_new demo_world ''./downloads'')
              (demo_video 1 [demo_file ''hd'' ''a'']) (demo_options 1) (demo_file ''hd'' ''a''))))"
    "map_sum id r_local_path (fst (transfer (DownloadManager_new demo_world ''./downloads'')
              (demo_video 1 [demo_file ''hd'' ''a'']) (demo_options 1) (demo_file ''hd'' ''a''))) =
       Inr ''downloads/new.mp4''"
    "map_sum id download_time (fst (transfer (DownloadManager_new demo_world ''./downloads'')
              (demo_video 1 [demo_file ''hd'' ''a'']) (demo_options 1) (demo_file ''hd'' ''a''))) =
       Inr (1 / 4)"
    by (simp_all add: DownloadManager_new_def demo_world_def demo_record_def demo_video_def
          demo_file_def demo_options_def transfer_def target_name_def target_dir_def demo_paths
          Let_def saveMetadata_def write_ledger_def emit_def new_events_def)
  have e: "fetched_ids (new_events (loadMetadata (DownloadManager_new demo_world ''./downloads''))
      (snd (downloadVideo (loadMetadata (DownloadManager_new demo_world ''./downloads''))
              (demo_video 1 [demo_file ''hd'' ''a'']) (demo_options 1)))) = []"
    by (simp add: loadMetadata_def DownloadManager_new_def demo_world_def demo_record_def
          demo_options_def downloadVideo_def getExistingDownloadResult_def emit_def new_events_def
          Let_def)
  from a b d e show ?thesis unfolding c by (intro conjI)
qed

subsection \<open>Filtering a batch\<close>




subsection \<open>Failures during a categorization run\<close>

text \<open>
  A relocation whose source file is not on the disk is answered with \<^verbatim>\<open>false\<close>: the rejection
  of \<^verbatim>\<open>fs.ensureDir\<close> or of \<^verbatim>\<open>fs.move\<close> is caught inside \<^verbatim>\<open>moveVideoToCategory\<close> (lines 187 to
  190), the record is left as it was and no file changes.
\<close>

lemma move_of_absent_file_fails:
  assumes "files w (local_path video) = None"
  shows "fst (moveVideoToCategory w video cat dlPath) = (False, video)"
    and "files (snd (moveVideoToCategory w video cat dlPath)) = files w"
  using assms
  by (simp_all add: moveVideoToCategory_def Let_def emit_def split: option.splits)

text \<open>
  What a run reports. It fails when the scheme has no rule set, and when the ledger file is
  missing or unreadable. With a rule set and a readable ledger the status is failed exactly
  when the final write of the ledger is rejected, and the error list holds that message and
  nothing else; every record that has to be relocated is attempted, in ledger order,
  whatever happened to the records before it, and at most that many are counted as moved.
  When the ledger is written, it holds the same ids in the same order, and the count of
  moved files is the number of records whose path changed.
\<close>

lemma organize_run_summary:
  "(chosen_rules opts = None \<longrightarrow> o_status (fst (organizeByCategory w opts)) = Failed) \<and>
   (chosen_rules opts \<noteq> None \<and> (metadataFile w = Missing \<or> (\<exists>msg. metadataFile w = Unreadable msg)) \<longrightarrow>
      o_status (fst (organizeByCategory w opts)) = Failed) \<and>
   (\<forall>rules recs. chosen_rules opts = Some rules \<and> metadataFile w = Ledger recs \<longrightarrow>
      o_status (fst (organizeByCategory w opts)) =
        (if ledger_write_error w = None then Success else Failed) \<and>
      errors (fst (organizeByCategory w opts)) =
        (case ledger_write_error w of None \<Rightarrow> [] | Some msg \<Rightarrow> [msg]) \<and>
      ensured_dirs (new_events w (snd (organizeByCategory w opts))) =
        map (\<lambda>r. path_join (downloadPath w) (the (categorizeVideo r rules (chosen_scheme opts))))
          (filter (needs_move (downloadPath w) rules (chosen_scheme opts)) recs) \<and>
      moved_files (fst (organizeByCategory w opts)) \<le>
        length (filter (needs_move (downloadPath w) rules (chosen_scheme opts)) recs) \<and>
      (ledger_write_error w = None \<longrightarrow>
         (\<exists>recs'. metadataFile (snd (organizeByCategory w opts)) = Ledger recs' \<and>
            map vm_id recs' = map vm_id recs \<and>
            moved_files (fst (organizeByCategory w opts)) =
              length (filter (\<lambda>(r, r'). local_path r' \<noteq> local_path r) (zip recs recs')))))"
proof (intro conjI allI impI)
  assume "chosen_rules opts = None"
  then show "o_status (fst (organizeByCategory w opts)) = Failed"
    by (simp add: organizeByCategory_def Let_def organize_failed_def)
next
  assume "chosen_rules opts \<noteq> None \<and> (metadataFile w = Missing \<or> (\<exists>msg. metadataFile w = Unreadable msg))"
  then show "o_status (fst (organizeByCategory w opts)) = Failed"
    by (auto simp: organizeByCategory_def Let_def organize_failed_def)
next
  fix rules recs
  assume a: "chosen_rules opts = Some rules \<and> metadataFile w = Ledger recs"
  obtain recs' res' w1 where loop:
    "organize_loop (emit LedgerRead w) rules (chosen_scheme opts) recs
       \<lparr>o_status = Success, moved_files = 0, categories_created = [], errors = []\<rparr> = ((recs', res'), w1)"
    by (metis surj_pair)
  note e = organize_loop_effects[OF loop]
  note mv = organize_loop_moved[OF loop]
  from e obtain es where es: "trace w1 = trace w @ LedgerRead # es"
    "ensured_dirs es = map (\<lambda>r. path_join (downloadPath w) (the (categorizeVideo r rules (chosen_scheme opts))))
          (filter (needs_move (downloadPath w) rules (chosen_scheme opts)) recs)"
    by auto
  have lw: "ledger_write_error w1 = ledger_write_error w" using e by simp
  have res: "fst (organizeByCategory w opts) =
      (case ledger_write_error w of None \<Rightarrow> res' | Some msg \<Rightarrow> organize_failed res' msg)"
    using a loop lw by (simp add: organizeByCategory_def Let_def split: option.splits)
  have tr: "trace (snd (organizeByCategory w opts)) = trace w @ (LedgerRead # es @ [LedgerWrite])"
    using a loop es(1) by (simp add: organizeByCategory_def Let_def split: option.splits)
  have ne: "new_events w (snd (organizeByCategory w opts)) = LedgerRead # es @ [LedgerWrite]"
    using tr by (rule new_events_append)
  have st: "o_status res' = Success" and er: "errors res' = []"
    and mf: "moved_files res' \<le> length (filter (needs_move (downloadPath w) rules (chosen_scheme opts)) recs)"
    using e by simp_all
  show "o_status (fst (organizeByCategory w opts)) =
        (if ledger_write_error w = None then Success else Failed)"
    unfolding res using st by (simp add: organize_failed_def split: option.splits)
  show "errors (fst (organizeByCategory w opts)) =
        (case ledger_write_error w of None \<Rightarrow> [] | Some msg \<Rightarrow> [msg])"
    unfolding res using er by (simp add: organize_failed_def split: option.splits)
  show "ensured_dirs (new_events w (snd (organizeByCategory w opts))) =
        map (\<lambda>r. path_join (downloadPath w) (the (categorizeVideo r rules (chosen_scheme opts))))
          (filter (needs_move (downloadPath w) rules (chosen_scheme opts)) recs)"
    unfolding ne using es(2) by simp
  show "moved_files (fst (organizeByCategory w opts)) \<le>
        length (filter (needs_move (downloadPath w) rules (chosen_scheme opts)) recs)"
    unfolding res using mf by (simp add: organize_failed_def split: option.splits)
  assume ok: "ledger_write_error w = None"
  have lf: "metadataFile (snd (organizeByCategory w opts)) = Ledger recs'"
    using a loop lw ok by (simp add: organizeByCategory_def Let_def)
  have "metadataFile (snd (organizeByCategory w opts)) = Ledger recs' \<and>
            map vm_id recs' = map vm_id recs \<and>
            moved_files (fst (organizeByCategory w opts)) =
              length (filter (\<lambda>(r, r'). local_path r' \<noteq> local_path r) (zip recs recs'))"
    using lf e mv unfolding res by (simp add: ok)
  then show "\<exists>recs'. metadataFile (snd (organizeByCategory w opts)) = Ledger recs' \<and>
            map vm_id recs' = map vm_id recs \<and>
            moved_files (fst (organizeByCategory w opts)) =
              length (filter (\<lambda>(r, r'). local_path r' \<noteq> local_path r) (zip recs recs'))"
    by (rule exI)
qed

lemma organize_in_sync:
  assumes "in_sync w"
  shows "in_sync (snd (organizeByCategory w opts))"
proof (cases "chosen_rules opts")
  case None
  then show ?thesis using assms by (simp add: organizeByCategory_def Let_def)
next
  case (Some rules)
  show ?thesis
  proof (cases "metadataFile w")
    case Missing
    then show ?thesis using assms Some by (simp add: organizeByCategory_def Let_def)
  next
    case (Unreadable msg)
    then show ?thesis using assms Some by (simp add: organizeByCategory_def Let_def)
  next
    case (Ledger recs)
    obtain recs' res' w1 where loop:
      "organize_loop (emit LedgerRead w) rules (chosen_scheme opts) recs
         \<lparr>o_status = Success, moved_files = 0, categories_created = [], errors = []\<rparr> = ((recs', res'), w1)"
      by (metis surj_pair)
    note e = organize_loop_effects[OF loop]
    have ids: "map vm_id recs' = map vm_id recs" and mf: "metadataFile w1 = metadataFile w"
      and dv: "downloadedVideos w1 = downloadedVideos w"
      using e by simp_all
    have u1: "in_sync w1" using assms mf dv by (simp add: in_sync_def ledger_ids_def)
    have u2: "in_sync (w1\<lparr>trace := t, metadataFile := Ledger recs'\<rparr>)" for t
      using assms ids Ledger dv by (simp add: in_sync_def ledger_ids_def)
    show ?thesis
      using Some Ledger loop u1 u2
      by (simp add: organizeByCategory_def Let_def emit_def split: option.splits)
  qed
qed

text \<open>
  Claim C3, at the input where the code departs from it. The ledger of the default download
  directory holds two records under the duration scheme; the file of asset 1 is not on the
  disk, so \<^verbatim>\<open>fs.move\<close> is attempted and rejects, \<^verbatim>\<open>moveVideoToCategory\<close> answers \<^verbatim>\<open>false\<close>
  (lemma \<open>move_of_absent_file_fails\<close>) and nothing arrives at the destination. The run goes
  on to asset 2 and moves it, and it reports success: so far the claim. But the error list
  it returns is empty, where the claim requires an entry for the failed relocation under
  the id of asset 1.
\<close>

theorem relocation_failure_not_reported:
  "chosen_rules demo_duration_options = Some [(''short'', []), (''medium'', []), (''long'', [])] \<and>
   metadataFile demo_world2 = Ledger [demo_record 1 ''a.mp4'' 15 [], demo_record 2 ''b.mp4'' 50 []] \<and>
   files demo_world2 ''downloads/a.mp4'' = None \<and>
   FileMove ''downloads/a.mp4'' ''downloads/short/a.mp4'' \<in>
     set (new_events demo_world2 (snd (organizeByCategory demo_world2 demo_duration_options))) \<and>
   files (snd (organizeByCategory demo_world2 demo_duration_options)) ''downloads/short/a.mp4'' = None \<and>
   files (snd (organizeByCategory demo_world2 demo_duration_options)) ''downloads/long/b.mp4'' = Some 2048 \<and>
   o_status (fst (organizeByCategory demo_world2 demo_duration_options)) = Success \<and>
   errors (fst (organizeByCategory demo_world2 demo_duration_options)) = [] \<and>
   moved_files (fst (organizeByCategory demo_world2 demo_duration_options)) = 1 \<and>
   categories_created (fst (organizeByCategory demo_world2 demo_duration_options)) = [''long'']"
  by (simp add: organizeByCategory_def chosen_rules_def chosen_scheme_def demo_duration_options_def
        organizationSchemes_def demo_world2_def demo_record_def categorizeVideo_def truthy_def
        moveVideoToCategory_def demo_paths emit_def new_events_def Let_def)

subsection \<open>Tag-based categories\<close>

text \<open>
  Claim C4, as amended. Under every scheme but the duration scheme an asset is assigned the
  first category, in the iteration order of the rule set, whose count attains the maximum
  over all categories, where the count of a category is the number of its keywords whose
  lowercased form occurs in the lowercased, space-joined tag string; the maximum has to be
  positive. When every count is zero the asset gets no category, and the loop of a run
  passes it over: record, result and world stay as they were.
\<close>

theorem categorizeVideo_tag_scheme:
  assumes "sch \<noteq> Duration"
  shows "let t = toLowerCase (join '' '' (tags (pexels_metadata video)));
             count = (\<lambda>i. length (filter (\<lambda>k. sublist (toLowerCase k) t) (snd (rules ! i))))
         in (categorizeVideo video rules sch = None \<longleftrightarrow> (\<forall>i<length rules. count i = 0)) \<and>
            (\<forall>c. categorizeVideo video rules sch = Some c \<longleftrightarrow>
               (\<exists>i<length rules. fst (rules ! i) = c \<and> 0 < count i \<and>
                  (\<forall>j<length rules. count j \<le> count i) \<and> (\<forall>j<i. count j < count i))) \<and>
            (categorizeVideo video rules sch = None \<longrightarrow>
               organize_loop w rules sch [video] result = (([video], result), w))"
proof -
  define t where "t = toLowerCase (join '' '' (tags (pexels_metadata video)))"
  define count where "count = (\<lambda>i. length (filter (\<lambda>k. sublist (toLowerCase k) t) (snd (rules ! i))))"
  define S where "S = (\<lambda>x. calculateCategoryScore t (snd x)) ` set rules"
  define m where "m = Max (insert 0 S)"
  define P where "P = (\<lambda>x :: string \<times> string list. calculateCategoryScore t (snd x) = m)"
  have fin: "finite S" by (simp add: S_def)
  have cnt: "calculateCategoryScore t (snd (rules ! i)) = count i" for i
    by (simp add: count_def calculateCategoryScore_count)
  have in_S: "count i \<in> S" if "i < length rules" for i
    unfolding S_def cnt[symmetric] using that by (intro imageI nth_mem)
  have S_ex: "\<exists>i<length rules. count i = s" if "s \<in> S" for s
  proof -
    from that obtain x where x: "x \<in> set rules" "s = calculateCategoryScore t (snd x)"
      unfolding S_def by blast
    then obtain i where "i < length rules" "rules ! i = x" by (auto simp: in_set_conv_nth)
    then show ?thesis using x(2) cnt[of i] by auto
  qed
  have m_in: "m \<in> insert 0 S" unfolding m_def using fin by (intro Max_in) auto
  have m_ge: "count i \<le> m" if "i < length rules" for i
    unfolding m_def using fin in_S[OF that] by (intro Max_ge) auto
  have P_idx: "P (rules ! i) \<longleftrightarrow> count i = m" for i
    by (simp add: P_def cnt[symmetric])
  have cat: "categorizeVideo video rules sch = (if m > 0 then map_option fst (find P rules) else None)"
    using categorizeVideo_tags_find[OF assms, of video rules]
    by (simp add: Let_def t_def m_def S_def P_def)
  have none: "categorizeVideo video rules sch = None \<longleftrightarrow> (\<forall>i<length rules. count i = 0)"
  proof
    assume N: "categorizeVideo video rules sch = None"
    have "m = 0"
    proof (rule ccontr)
      assume "m \<noteq> 0"
      then have pos: "m > 0" by simp
      with m_in have "m \<in> S" by auto
      then obtain i where i: "i < length rules" "count i = m" using S_ex by blast
      have "rules ! i \<in> set rules" using i(1) by simp
      moreover have "P (rules ! i)" using i(2) P_idx[of i] by simp
      ultimately have "\<exists>x. x \<in> set rules \<and> P x" by (intro exI conjI)
      then have "find P rules \<noteq> None" unfolding find_None_iff by simp
      with N pos cat show False by simp
    qed
    then show "\<forall>i<length rules. count i = 0" using m_ge by fastforce
  next
    assume A: "\<forall>i<length rules. count i = 0"
    have "m = 0"
    proof (cases "m \<in> S")
      case True
      then obtain i where "i < length rules" "count i = m" using S_ex by blast
      then show ?thesis using A by simp
    next
      case False
      then show ?thesis using m_in by simp
    qed
    then show "categorizeVideo video rules sch = None" using cat by simp
  qed
  have some: "categorizeVideo video rules sch = Some c \<longleftrightarrow>
               (\<exists>i<length rules. fst (rules ! i) = c \<and> 0 < count i \<and>
                  (\<forall>j<length rules. count j \<le> count i) \<and> (\<forall>j<i. count j < count i))"
    (is "?L \<longleftrightarrow> ?R") for c
  proof
    assume Sm: ?L
    have pos: "m > 0" using Sm cat by (simp split: if_splits)
    then have "map_option fst (find P rules) = Some c" using Sm cat by simp
    then obtain x where fx: "find P rules = Some x" and c: "fst x = c" by auto
    from fx have "\<exists>i<length rules. P (rules ! i) \<and> x = rules ! i \<and> (\<forall>j<i. \<not> P (rules ! j))"
      by (simp only: find_Some_iff)
    then obtain i where i: "i < length rules" "P (rules ! i)" "x = rules ! i"
      and first: "\<forall>j<i. \<not> P (rules ! j)"
      by (elim exE conjE)
    have ci: "count i = m" using i(2) P_idx[of i] by simp
    have lt: "\<forall>j<i. count j < count i"
    proof (intro allI impI)
      fix j assume ji: "j < i"
      then have "count j \<noteq> m" using first P_idx[of j] by simp
      moreover have "count j \<le> m" using m_ge[of j] ji i(1) by simp
      ultimately show "count j < count i" using ci by simp
    qed
    have le: "\<forall>j<length rules. count j \<le> count i" using m_ge ci by simp
    have "i < length rules \<and> fst (rules ! i) = c \<and> 0 < count i \<and>
                  (\<forall>j<length rules. count j \<le> count i) \<and> (\<forall>j<i. count j < count i)"
      using i(1) i(3) c ci pos le lt by simp
    then show ?R by (rule exI)
  next
    assume ?R
    then obtain i where i: "i < length rules" "fst (rules ! i) = c" "0 < count i"
      and mx: "\<forall>j<length rules. count j \<le> count i" and first: "\<forall>j<i. count j < count i"
      by blast
    have "m \<le> count i"
    proof (cases "m \<in> S")
      case True
      then obtain j where "j < length rules" "count j = m" using S_ex by blast
      then show ?thesis using mx by auto
    next
      case False
      then show ?thesis using m_in by simp
    qed
    then have ci: "count i = m" using m_ge[OF i(1)] by simp
    then have pos: "m > 0" using i(3) by simp
    have Pi: "P (rules ! i)" using ci P_idx[of i] by simp
    have nP: "\<forall>j<i. \<not> P (rules ! j)"
    proof (intro allI impI)
      fix j assume "j < i"
      then have "count j < m" using first ci by simp
      then show "\<not> P (rules ! j)" using P_idx[of j] by simp
    qed
    have "\<exists>k<length rules. P (rules ! k) \<and> rules ! i = rules ! k \<and> (\<forall>j<k. \<not> P (rules ! j))"
      using i(1) Pi nP by (intro exI[of _ i]) simp
    then have "find P rules = Some (rules ! i)"
      by (simp only: find_Some_iff)
    then show ?L
      using cat pos i(2) by simp
  qed
  have skip: "categorizeVideo video rules sch = None \<longrightarrow>
               organize_loop w rules sch [video] result = (([video], result), w)"
    by (simp add: truthy_def)
  show ?thesis
    unfolding Let_def using none some skip
    by (simp add: t_def count_def)
qed

text \<open>Two categories score one each on the tags \<^verbatim>\<open>forest\<close>, \<^verbatim>\<open>tree\<close>; the first listed wins.\<close>

theorem categorizeVideo_tag_scheme_witness:
  "Custom \<noteq> Duration \<and>
   categorizeVideo demo_tagged demo_rules Custom = Some ''first'' \<and>
   (\<exists>i<length demo_rules. fst (demo_rules ! i) = ''first'' \<and>
      0 < length (filter (\<lambda>k. sublist (toLowerCase k)
                    (toLowerCase (join '' '' (tags (pexels_metadata demo_tagged)))))
                  (snd (demo_rules ! i))) \<and>
      (\<forall>j<length demo_rules.
          length (filter (\<lambda>k. sublist (toLowerCase k)
                    (toLowerCase (join '' '' (tags (pexels_metadata demo_tagged)))))
                  (snd (demo_rules ! j)))
          \<le> length (filter (\<lambda>k. sublist (toLowerCase k)
                    (toLowerCase (join '' '' (tags (pexels_metadata demo_tagged)))))
                  (snd (demo_rules ! i)))) \<and>
      (\<forall>j<i.
          length (filter (\<lambda>k. sublist (toLowerCase k)
                    (toLowerCase (join '' '' (tags (pexels_metadata demo_tagged)))))
                  (snd (demo_rules ! j)))
          < length (filter (\<lambda>k. sublist (toLowerCase k)
                    (toLowerCase (join '' '' (tags (pexels_metadata demo_tagged)))))
                  (snd (demo_rules ! i)))))"
proof -
  have ne: "Custom \<noteq> Duration" by simp
  have val: "categorizeVideo demo_tagged demo_rules Custom = Some ''first''"
    by (simp add: categorizeVideo_def demo_tagged_def demo_rules_def demo_record_def demo_lower
          calculateCategoryScore_def)
  note inst = categorizeVideo_tag_scheme [OF ne, of demo_tagged demo_rules, unfolded Let_def,
      THEN conjunct2, THEN conjunct1, THEN spec, of "''first''"]
  from ne val iffD1[OF inst val] show ?thesis by (intro conjI)
qed

text \<open>
  The claim as worded counts the keywords that occur in the lowercased tag string. The
  keyword \<^verbatim>\<open>Forest\<close> does not occur in \<^verbatim>\<open>forest\<close>, so that count is zero for the only
  category, yet the code assigns the category.
\<close>

theorem keyword_case_counterexample:
  "spec_keyword_count (toLowerCase (join '' '' [''forest''])) [''Forest''] = 0 \<and>
   categorizeVideo (demo_record 1 ''a.mp4'' 15 [''forest'']) [(''nature'', [''Forest''])] Custom =
     Some ''nature''"
proof -
  have "\<not> str_includes ''forest'' ''Forest''" by simp
  then have a: "spec_keyword_count (toLowerCase (join '' '' [''forest''])) [''Forest''] = 0"
    by (simp add: spec_keyword_count_def demo_lower str_includes_sublist)
  have b: "categorizeVideo (demo_record 1 ''a.mp4'' 15 [''forest'']) [(''nature'', [''Forest''])] Custom =
     Some ''nature''"
    by (simp add: categorizeVideo_def demo_record_def demo_lower calculateCategoryScore_def)
  from a b show ?thesis by simp
qed

subsection \<open>Cache entries\<close>

text \<open>
  Claim C5, as amended. \<^verbatim>\<open>set\<close> stores the value under the key with expiry \<open>now + ttl * 1000\<close>,
  where the ttl is the override when one is given and is not zero, and the configured
  default otherwise; it replaces whatever the key held and touches no other key. A \<^verbatim>\<open>get\<close>
  at a time not after the expiry returns the value and leaves the cache as it is; a \<^verbatim>\<open>get\<close>
  after the expiry returns nothing and removes the entry.
\<close>

theorem cache_set_then_get:
  "let dur = (case ttl of None \<Rightarrow> cache_duration c | Some x \<Rightarrow> if x = 0 then cache_duration c else x);
       c' = cache_set c now key v ttl
   in cache c' key = Some \<lparr>data = v, timestamp = now, expiresAt = now + dur * 1000\<rparr> \<and>
      (\<forall>k. k \<noteq> key \<longrightarrow> cache c' k = cache c k) \<and>
      (t \<le> now + dur * 1000 \<longrightarrow> cache_get c' t key = (Some v, c')) \<and>
      (now + dur * 1000 < t \<longrightarrow>
         fst (cache_get c' t key) = None \<and> cache (snd (cache_get c' t key)) key = None)"
  by (simp add: cache_set_def cache_get_def Let_def split: option.splits)

text \<open>An override of one second: present at 1.0 s, absent and removed at 1.1 s.\<close>

theorem cache_set_then_get_witness:
  "cache (cache_set demo_cache 1000 ''k'' 7 (Some 1)) ''k'' = Some \<lparr>data = 7, timestamp = 1000, expiresAt = 2000\<rparr> \<and>
   cache_get (cache_set demo_cache 1000 ''k'' 7 (Some 1)) 2000 ''k'' = (Some 7, cache_set demo_cache 1000 ''k'' 7 (Some 1)) \<and>
   fst (cache_get (cache_set demo_cache 1000 ''k'' 7 (Some 1)) 2100 ''k'') = None \<and>
   cache (snd (cache_get (cache_set demo_cache 1000 ''k'' 7 (Some 1)) 2100 ''k'')) ''k'' = None \<and>
   cache (cache_set demo_cache 1000 ''k'' 7 None) ''k'' = Some \<lparr>data = 7, timestamp = 1000, expiresAt = 3601000\<rparr>"
  using cache_set_then_get [where ttl = "Some 1" and c = demo_cache and now = 1000 and key = "''k''" and v = 7 and t = 2000]
        cache_set_then_get [where ttl = "Some 1" and c = demo_cache and now = 1000 and key = "''k''" and v = 7 and t = 2100]
        cache_set_then_get [where ttl = None and c = demo_cache and now = 1000 and key = "''k''" and v = 7 and t = 2100]
  by (simp add: Let_def demo_cache_def)

text \<open>
  An override of zero is given, and the entry still expires after the default 3600 seconds:
  one millisecond later the value is returned.
\<close>

theorem cache_zero_override_counterexample:
  "expiresAt (the (cache (cache_set demo_cache 1000 ''k'' 7 (Some 0)) ''k'')) = 3601000 \<and>
   expiresAt (the (cache (cache_set demo_cache 1000 ''k'' 7 (Some 0)) ''k'')) \<noteq> 1000 + 0 * 1000 \<and>
   fst (cache_get (cache_set demo_cache 1000 ''k'' 7 (Some 0)) 1001 ''k'') = Some 7"
  by (simp add: cache_set_def cache_get_def demo_cache_def)

subsection \<open>One record per asset id\<close>

text \<open>
  Claim C6. A missing ledger file has one record per id, vacuously. A successful
  \<^verbatim>\<open>saveMetadata\<close> leaves exactly one record with the id of the record it appends. If the
  ledger has at most one record per id, it still has after \<^verbatim>\<open>saveMetadata\<close>, after a fetch,
  after a batch and after a categorization run: the operations that write the ledger.
\<close>

theorem ledger_one_record_per_id:
  "(metadataFile w = Missing \<longrightarrow> ledger_unique w) \<and>
   (ledger_write_error w = None \<and> (\<forall>msg. metadataFile w \<noteq> Unreadable msg) \<longrightarrow>
      count_list (ledger_ids (saveMetadata w vm)) (vm_id vm) = 1) \<and>
   (ledger_unique w \<longrightarrow>
      ledger_unique (saveMetadata w vm) \<and>
      ledger_unique (snd (downloadVideo w v opts)) \<and>
      ledger_unique (snd (batchDownload w videos bopts)) \<and>
      ledger_unique (snd (organizeByCategory w oopts)))"
proof -
  have a: "metadataFile w = Missing \<longrightarrow> ledger_unique w"
    by (simp add: ledger_unique_def ledger_ids_def)
  have b: "ledger_write_error w = None \<and> (\<forall>msg. metadataFile w \<noteq> Unreadable msg) \<longrightarrow>
      count_list (ledger_ids (saveMetadata w vm)) (vm_id vm) = 1"
    using saveMetadata_count by blast
  have c: "ledger_unique w \<longrightarrow> ledger_unique (snd (batchDownload w videos bopts))"
    unfolding snd_batchDownload using download_all_effects by blast
  show ?thesis
    using a b c saveMetadata_unique downloadVideo_unique organize_unique by blast
qed

text \<open>The example directory, and a stale record for asset 1 replaced.\<close>

theorem ledger_one_record_per_id_witness:
  "ledger_unique demo_world \<and>
   count_list (ledger_ids (saveMetadata demo_world (demo_record 1 ''z.mp4'' 20 []))) 1 = 1 \<and>
   ledger_unique (saveMetadata demo_world (demo_record 1 ''z.mp4'' 20 [])) \<and>
   ledger_unique (snd (downloadVideo demo_world (demo_video 2 [demo_file ''hd'' ''a'']) (demo_options 2))) \<and>
   ledger_unique (snd (batchDownload demo_world [demo_video 2 [demo_file ''hd'' ''a'']] (demo_batch_options None))) \<and>
   ledger_unique (snd (organizeByCategory demo_world demo_duration_options))"
proof -
  have u: "ledger_unique demo_world"
    by (simp add: ledger_unique_def ledger_ids_def demo_world_def)
  have e: "ledger_write_error demo_world = None" "\<forall>msg. metadataFile demo_world \<noteq> Unreadable msg"
    by (simp_all add: demo_world_def)
  have i: "vm_id (demo_record 1 ''z.mp4'' 20 []) = 1" by (simp add: demo_record_def)
  note t = ledger_one_record_per_id [of demo_world "demo_record 1 ''z.mp4'' 20 []"
      "demo_video 2 [demo_file ''hd'' ''a'']" "demo_options 2"
      "[demo_video 2 [demo_file ''hd'' ''a'']]" "demo_batch_options None" demo_duration_options]
  show ?thesis using t u e i by simp
qed

subsection \<open>Rendition selection\<close>

text \<open>
  Claim C7. For the requested quality (\<^verbatim>\<open>hd\<close> when none is given) the rendition chosen is
  the first one of the asset's list whose quality is the first entry of the preference
  order that some rendition has; when no rendition has a quality of the order, it is the
  first rendition of the list. A fetch that is not answered from the ledger transfers the
  rendition so chosen, and when the asset has no rendition it resolves to a failure result
  whose error says that no suitable video file was found, leaving the world untouched.
\<close>

theorem rendition_selection:
  assumes "q = (case o_quality options of Some x \<Rightarrow> x | None \<Rightarrow> HD)"
  shows "(\<forall>p. find (\<lambda>p. \<exists>f\<in>set fs. vf_quality f = p) (spec_preference q) = Some p \<longrightarrow>
            selectBestQuality fs (quality_name q) = find (\<lambda>f. vf_quality f = p) fs) \<and>
         (find (\<lambda>p. \<exists>f\<in>set fs. vf_quality f = p) (spec_preference q) = None \<longrightarrow>
            selectBestQuality fs (quality_name q) = (case fs of [] \<Rightarrow> None | f # _ \<Rightarrow> Some f)) \<and>
         (video_id options \<notin> downloadedVideos w \<and> video_files v = fs \<longrightarrow>
            download_body w v options =
              (case selectBestQuality fs (quality_name q) of
                 Some f \<Rightarrow> transfer w v options f
               | None \<Rightarrow> (Inl (''No suitable video file found for quality: '' @
                               (case o_quality options of Some x \<Rightarrow> quality_name x
                                | None \<Rightarrow> ''undefined'')), w))) \<and>
         (video_id options \<notin> downloadedVideos w \<and> video_files v = [] \<longrightarrow>
            (\<exists>res. fst (downloadVideo w v options) = Inr res \<and>
               status res = Failed \<and>
               error res =
                 Some (''No suitable video file found for quality: '' @
                       (case o_quality options of Some x \<Rightarrow> quality_name x | None \<Rightarrow> ''undefined''))) \<and>
            snd (downloadVideo w v options) = w)"
proof -
  have qn: "(case o_quality options of Some x \<Rightarrow> quality_name x | None \<Rightarrow> ''hd'') = quality_name q"
    using assms by (simp add: quality_name_def split: option.splits)
  have body: "download_body w v options =
      (case selectBestQuality (video_files v) (quality_name q) of
         Some f \<Rightarrow> transfer w v options f
       | None \<Rightarrow> (Inl (''No suitable video file found for quality: '' @
                       (case o_quality options of Some x \<Rightarrow> quality_name x
                        | None \<Rightarrow> ''undefined'')), w))"
    if "video_id options \<notin> downloadedVideos w"
    using that by (simp add: download_body_def qn split: option.splits)
  have empty: "downloadVideo w v options =
      (Inr (failed_result (video_id options) 0
         (''No suitable video file found for quality: '' @
            (case o_quality options of Some x \<Rightarrow> quality_name x | None \<Rightarrow> ''undefined''))), w)"
    if "video_id options \<notin> downloadedVideos w" "video_files v = []"
    using that by (simp add: downloadVideo_def body selectBestQuality_Nil)
  have sel1: "\<forall>p. find (\<lambda>p. \<exists>f\<in>set fs. vf_quality f = p) (spec_preference q) = Some p \<longrightarrow>
            selectBestQuality fs (quality_name q) = find (\<lambda>f. vf_quality f = p) fs"
    by (simp add: selectBestQuality_spec)
  have sel2: "find (\<lambda>p. \<exists>f\<in>set fs. vf_quality f = p) (spec_preference q) = None \<longrightarrow>
            selectBestQuality fs (quality_name q) = (case fs of [] \<Rightarrow> None | f # _ \<Rightarrow> Some f)"
    by (simp add: selectBestQuality_spec)
  have fetch: "video_id options \<notin> downloadedVideos w \<and> video_files v = fs \<longrightarrow>
            download_body w v options =
              (case selectBestQuality fs (quality_name q) of
                 Some f \<Rightarrow> transfer w v options f
               | None \<Rightarrow> (Inl (''No suitable video file found for quality: '' @
                               (case o_quality options of Some x \<Rightarrow> quality_name x
                                | None \<Rightarrow> ''undefined'')), w))"
    using body by blast
  have none: "video_id options \<notin> downloadedVideos w \<and> video_files v = [] \<longrightarrow>
            (\<exists>res. fst (downloadVideo w v options) = Inr res \<and>
               status res = Failed \<and>
               error res =
                 Some (''No suitable video file found for quality: '' @
                       (case o_quality options of Some x \<Rightarrow> quality_name x | None \<Rightarrow> ''undefined''))) \<and>
            snd (downloadVideo w v options) = w"
  proof (intro impI, elim conjE)
    assume a: "video_id options \<notin> downloadedVideos w" "video_files v = []"
    show "(\<exists>res. fst (downloadVideo w v options) = Inr res \<and>
               status res = Failed \<and>
               error res =
                 Some (''No suitable video file found for quality: '' @
                       (case o_quality options of Some x \<Rightarrow> quality_name x | None \<Rightarrow> ''undefined''))) \<and>
            snd (downloadVideo w v options) = w"
      unfolding empty[OF a] by (simp add: failed_result_def)
  qed
  from sel1 sel2 fetch none show ?thesis by (intro conjI)
qed

text \<open>Quality \<^verbatim>\<open>mobile\<close> with renditions \<^verbatim>\<open>hd\<close>, \<^verbatim>\<open>sd\<close> selects \<^verbatim>\<open>sd\<close>; with none of the
  three qualities on offer the first rendition is taken; with no rendition the fetch fails.\<close>

theorem rendition_selection_witness:
  "selectBestQuality [demo_file ''hd'' ''a'', demo_file ''sd'' ''b''] (quality_name Mobile) =
     Some (demo_file ''sd'' ''b'') \<and>
   selectBestQuality [demo_file ''uhd'' ''a'', demo_file ''hls'' ''b''] (quality_name Mobile) =
     Some (demo_file ''uhd'' ''a'') \<and>
   (\<exists>res. fst (downloadVideo demo_world (demo_video 2 []) (demo_options 2)) = Inr res \<and>
      status res = Failed \<and>
      error res = Some ''No suitable video file found for quality: mobile'')"
  using rendition_selection [where options = "demo_options 2" and q = Mobile and w = demo_world
          and v = "demo_video 2 []" and fs = "[demo_file ''hd'' ''a'', demo_file ''sd'' ''b'']"]
        rendition_selection [where options = "demo_options 2" and q = Mobile and w = demo_world
          and v = "demo_video 2 []" and fs = "[demo_file ''uhd'' ''a'', demo_file ''hls'' ''b'']"]
  by (simp add: demo_options_def demo_world_def demo_video_def demo_file_def spec_preference_def
        quality_name_def)

subsection \<open>Duration buckets\<close>

text \<open>
  Claim C8. Under the duration scheme a duration of at most 15 seconds gives \<^verbatim>\<open>short\<close>, a
  longer one of at most 45 seconds gives \<^verbatim>\<open>medium\<close>, any greater one gives \<^verbatim>\<open>long\<close>; one of
  the three is always assigned.
\<close>

theorem duration_scheme_buckets:
  "(duration (pexels_metadata video) \<le> 15 \<longrightarrow> categorizeVideo video rules Duration = Some ''short'') \<and>
   (15 < duration (pexels_metadata video) \<and> duration (pexels_metadata video) \<le> 45 \<longrightarrow>
      categorizeVideo video rules Duration = Some ''medium'') \<and>
   (45 < duration (pexels_metadata video) \<longrightarrow> categorizeVideo video rules Duration = Some ''long'') \<and>
   categorizeVideo video rules Duration \<in> {Some ''short'', Some ''medium'', Some ''long''}"
  by (simp add: categorizeVideo_def Let_def)

text \<open>The boundaries: 15 s, 45 s and 45.01 s.\<close>

theorem duration_scheme_buckets_witness:
  "categorizeVideo (demo_record 1 ''a'' 15 []) [] Duration = Some ''short'' \<and>
   categorizeVideo (demo_record 1 ''a'' 45 []) [] Duration = Some ''medium'' \<and>
   categorizeVideo (demo_record 1 ''a'' (4501 / 100) []) [] Duration = Some ''long''"
  using duration_scheme_buckets [of "demo_record 1 ''a'' 15 []" "[]"]
        duration_scheme_buckets [of "demo_record 1 ''a'' 45 []" "[]"]
        duration_scheme_buckets [of "demo_record 1 ''a'' (4501 / 100) []" "[]"]
  by (simp add: demo_record_def)

subsection \<open>A rejected ledger write\<close>

text \<open>
  Claim C10. The asset is not in the set of downloaded ids, a rendition is chosen, directory
  creation, transfer and stream write succeed, and the write of the ledger file is
  rejected. Then the fetch still resolves to a success result for the stored file, the ledger
  file and the set of downloaded ids are what they were before, so the id is not in the set
  and, unless the ledger already held a record for it, not in the ledger either.
\<close>

theorem ledger_write_failure_swallowed:
  assumes "video_id opts \<notin> downloadedVideos w"
    and "selectBestQuality (video_files v)
           (case o_quality opts of Some q \<Rightarrow> quality_name q | None \<Rightarrow> ''hd'') = Some f"
    and "dir_error w (target_dir w opts) = None"
    and "http w (link f) = Inr sz"
    and "write_error w (path_join (target_dir w opts) (target_name w v opts)) = None"
    and "ledger_write_error w = Some msg"
  shows "(\<exists>res. fst (downloadVideo w v opts) = Inr res \<and>
            status res = Success \<and>
            error res = None \<and>
            r_file_size res = sz \<and>
            r_local_path res = path_join (target_dir w opts) (target_name w v opts)) \<and>
         files (snd (downloadVideo w v opts)) (path_join (target_dir w opts) (target_name w v opts)) = Some sz \<and>
         metadataFile (snd (downloadVideo w v opts)) = metadataFile w \<and>
         downloadedVideos (snd (downloadVideo w v opts)) = downloadedVideos w \<and>
         video_id opts \<notin> downloadedVideos (snd (downloadVideo w v opts)) \<and>
         (video_id opts \<notin> set (ledger_ids w) \<longrightarrow>
            video_id opts \<notin> set (ledger_ids (snd (downloadVideo w v opts))))"
proof -
  define path where "path = path_join (target_dir w opts) (target_name w v opts)"
  define w4 where "w4 = (emit (FileWrite path)
               ((emit (HttpGet (video_id opts) (link f)) (emit (EnsureDir (target_dir w opts)) w))
                \<lparr>clock := clock w + int (latency w (link f))\<rparr>))
              \<lparr>files := (files w)(path \<mapsto> sz)\<rparr>"
  have w4: "ledger_write_error w4 = Some msg" "metadataFile w4 = metadataFile w"
    "downloadedVideos w4 = downloadedVideos w" "files w4 path = Some sz"
    using assms(6) by (simp_all add: w4_def emit_def)
  note sv = saveMetadata_write_fails[OF w4(1)]
  have body: "download_body w v opts = transfer w v opts f"
    using assms(1,2) by (simp add: download_body_def)
  have "\<exists>res. transfer w v opts f = (Inr res, saveMetadata w4
           \<lparr>vm_id = video_id opts, filename = target_name w v opts, local_path = path,
            file_size = sz, download_date = clock w4, category = o_category opts,
            pexels_metadata = \<lparr>width = pv_width v, height = pv_height v, duration = pv_duration v,
                               url = pv_url v, tags = pv_tags v, user = pv_user v\<rparr>\<rparr>) \<and>
          status res = Success \<and> error res = None \<and> r_file_size res = sz \<and> r_local_path res = path"
    using assms(3,4,5)
    by (simp add: transfer_def Let_def path_def[symmetric] w4_def emit_def)
  then obtain res vm where t: "transfer w v opts f = (Inr res, saveMetadata w4 vm)"
    and r: "status res = Success" "error res = None" "r_file_size res = sz" "r_local_path res = path"
    by blast
  have dv: "downloadVideo w v opts = (Inr res, saveMetadata w4 vm)"
    using assms(1) by (simp add: downloadVideo_def body t)
  have ids: "ledger_ids (saveMetadata w4 vm) = ledger_ids w"
    using sv(1)[of vm] w4(2) by (simp add: ledger_ids_def)
  show ?thesis
    unfolding dv path_def[symmetric]
    using r sv(1)[of vm] sv(2)[of vm] sv(3)[of vm] w4 ids assms(1) by simp
qed

text \<open>Asset 2 is fetched into the example directory while the ledger cannot be written.\<close>

theorem ledger_write_failure_swallowed_witness:
  "2 \<notin> downloadedVideos (demo_world\<lparr>ledger_write_error := Some ''EACCES''\<rparr>) \<and>
   (\<exists>res. fst (downloadVideo (demo_world\<lparr>ledger_write_error := Some ''EACCES''\<rparr>)
                  (demo_video 2 [demo_file ''hd'' ''a'']) (demo_options 2)) = Inr res \<and>
      status res = Success \<and> r_file_size res = 4096 \<and> r_local_path res = ''downloads/new.mp4'') \<and>
   files (snd (downloadVideo (demo_world\<lparr>ledger_write_error := Some ''EACCES''\<rparr>)
                  (demo_video 2 [demo_file ''hd'' ''a'']) (demo_options 2))) ''downloads/new.mp4'' = Some 4096 \<and>
   metadataFile (snd (downloadVideo (demo_world\<lparr>ledger_write_error := Some ''EACCES''\<rparr>)
                  (demo_video 2 [demo_file ''hd'' ''a'']) (demo_options 2))) =
     Ledger [demo_record 1 ''clip.mp4'' 15 [''forest'']] \<and>
   2 \<notin> downloadedVideos (snd (downloadVideo (demo_world\<lparr>ledger_write_error := Some ''EACCES''\<rparr>)
                  (demo_video 2 [demo_file ''hd'' ''a'']) (demo_options 2))) \<and>
   2 \<notin> set (ledger_ids (snd (downloadVideo (demo_world\<lparr>ledger_write_error := Some ''EACCES''\<rparr>)
                  (demo_video 2 [demo_file ''hd'' ''a'']) (demo_options 2))))"
proof -
  let ?w = "demo_world\<lparr>ledger_write_error := Some ''EACCES''\<rparr>"
  let ?v = "demo_video 2 [demo_file ''hd'' ''a'']"
  let ?o = "demo_options 2"
  have a1: "video_id ?o \<notin> downloadedVideos ?w"
    by (simp add: demo_options_def demo_world_def)
  have a2: "selectBestQuality (video_files ?v)
           (case o_quality ?o of Some q \<Rightarrow> quality_name q | None \<Rightarrow> ''hd'') = Some (demo_file ''hd'' ''a'')"
    by (simp add: demo_options_def demo_video_def demo_file_def selectBestQuality_def
          qualityOrder_def quality_name_def)
  have td: "target_dir ?w ?o = ''./downloads''" "target_name ?w ?v ?o = ''new.mp4''"
    by (simp_all add: target_dir_def target_name_def demo_options_def demo_world_def)
  have a3: "dir_error ?w (target_dir ?w ?o) = None" by (simp add: demo_world_def)
  have a4: "http ?w (link (demo_file ''hd'' ''a'')) = Inr 4096" by (simp add: demo_world_def)
  have a5: "write_error ?w (path_join (target_dir ?w ?o) (target_name ?w ?v ?o)) = None"
    by (simp add: demo_world_def)
  have a6: "ledger_write_error ?w = Some ''EACCES''" by simp
  have l: "2 \<notin> set (ledger_ids ?w)" by (simp add: ledger_ids_def demo_world_def demo_record_def)
  have m: "metadataFile ?w = Ledger [demo_record 1 ''clip.mp4'' 15 [''forest'']]"
    by (simp add: demo_world_def)
  have v: "video_id ?o = 2" by (simp add: demo_options_def)
  note t = ledger_write_failure_swallowed [OF a1 a2 a3 a4 a5 a6]
  show ?thesis
    using t a1 l unfolding td m v demo_paths by auto
qed

end
